theory Spec2Isabelle
  imports Main "HOL-Library.Word"
begin

section \<open>Account settings and the choice of the generation method\<close>

text \<open>
  The module keeps four settings that decide how an image is generated: the account token
  \<open>wizzlethorpeToken\<close> (a string, empty when no account is linked), the account info
  \<open>wizzlethorpeAccount\<close> (a JSON string written by the module itself when linking; here the
  parsed object, \<open>None\<close> when the setting is empty or does not parse, which is when
  \<open>getLinkedAccount\<close> returns null), the user's own key \<open>openaiApiKey\<close> (a string, empty by
  default) and the toggle \<open>useServerMode\<close>. JavaScript strings are modelled as \<open>string\<close>; a
  string is truthy when it is not empty.
\<close>

record account =
  name :: string
  tierName :: string
  tierCents :: int

record settings =
  wizzlethorpeToken :: string
  wizzlethorpeAccount :: "account option"
  openaiApiKey :: string
  useServerMode :: bool

definition WizzlethorpeAPI_isLinked :: "settings \<Rightarrow> bool" where
  "WizzlethorpeAPI_isLinked s = (wizzlethorpeToken s \<noteq> [])"

definition WizzlethorpeAPI_getLinkedAccount :: "settings \<Rightarrow> account option" where
  "WizzlethorpeAPI_getLinkedAccount s = wizzlethorpeAccount s"

definition WizzlethorpeAPI_getToken :: "settings \<Rightarrow> string option" where
  "WizzlethorpeAPI_getToken s =
     (if wizzlethorpeToken s \<noteq> [] then Some (wizzlethorpeToken s) else None)"

definition WizzlethorpeAPI_canUseServerGeneration :: "settings \<Rightarrow> bool" where
  "WizzlethorpeAPI_canUseServerGeneration s =
     (case WizzlethorpeAPI_getLinkedAccount s of
        None \<Rightarrow> False
      | Some a \<Rightarrow> tierCents a \<ge> 500)"

definition WizzlethorpeAPI_canUseBYOKAdvanced :: "settings \<Rightarrow> bool" where
  "WizzlethorpeAPI_canUseBYOKAdvanced s =
     (case WizzlethorpeAPI_getLinkedAccount s of
        None \<Rightarrow> False
      | Some a \<Rightarrow> tierCents a \<ge> 300)"

text \<open>
  The three conditions computed by \<open>QuickbrushDialog._updateObject\<close>. In the source the last
  two are \<open>... && openaiApiKey\<close>, whose value is the key itself; only its truthiness is used.
\<close>

definition shouldUseAPI :: "settings \<Rightarrow> bool" where
  "shouldUseAPI s =
     (WizzlethorpeAPI_isLinked s \<and> (WizzlethorpeAPI_canUseServerGeneration s \<and> useServerMode s))"

definition shouldUseBYOKAPI :: "settings \<Rightarrow> bool" where
  "shouldUseBYOKAPI s =
     (WizzlethorpeAPI_isLinked s \<and> \<not> shouldUseAPI s \<and> openaiApiKey s \<noteq> [])"

definition shouldUseLocalBYOK :: "settings \<Rightarrow> bool" where
  "shouldUseLocalBYOK s = (\<not> WizzlethorpeAPI_isLinked s \<and> openaiApiKey s \<noteq> [])"

datatype GenerationStrategy = ServerPooled | ServerBrokeredBYOK | LocalDirectBYOK

text \<open>
  The outcome of the choice: a strategy, or no strategy together with the error notification
  shown to the user, if any (\<open>_updateObject\<close> returns after the notification).
\<close>

datatype resolution = Strategy GenerationStrategy | Unconfigured "string option"

definition msg_no_account_no_key :: string where
  "msg_no_account_no_key =
     ''Please link your Wizzlethorpe Labs account or configure an OpenAI API key in module settings.''"

definition msg_insufficient_tier_no_key :: string where
  "msg_insufficient_tier_no_key =
     ''Server-side generation requires an Alchemist subscription. Please add an OpenAI API key for BYOK mode.''"

definition resolve :: "settings \<Rightarrow> resolution" where
  "resolve s =
     (if \<not> shouldUseAPI s \<and> \<not> shouldUseBYOKAPI s \<and> \<not> shouldUseLocalBYOK s then
        (if \<not> WizzlethorpeAPI_isLinked s \<and> \<not> openaiApiKey s \<noteq> [] then
           Unconfigured (Some msg_no_account_no_key)
         else if WizzlethorpeAPI_isLinked s \<and> \<not> WizzlethorpeAPI_canUseServerGeneration s
                   \<and> \<not> openaiApiKey s \<noteq> [] then
           Unconfigured (Some msg_insufficient_tier_no_key)
         else Unconfigured None)
      else if shouldUseAPI s then Strategy ServerPooled
      else if shouldUseBYOKAPI s then Strategy ServerBrokeredBYOK
      else Strategy LocalDirectBYOK)"

section \<open>JavaScript values, strings and errors\<close>

text \<open>
  A parsed JSON document. Numbers are restricted to the integers from \<open>-2^53\<close> to
  \<open>2^53 - 1\<close> (the tier and usage fields carry small integers): a 54-bit word read as a
  signed value, which a JavaScript number holds exactly and prints with all its digits.
  Strings are restricted to characters below 256. The value \<open>undefined\<close> is \<open>None\<close> of
  \<open>jsval option\<close>. An object is the list of its own properties in insertion order, with
  distinct keys.
\<close>

datatype jsval =
    JNull
  | JBool bool
  | JNum "54 word"
  | JStr string
  | JArr "jsval list"
  | JObj "(string \<times> jsval) list"

text \<open>
  What the source can throw: \<open>new Error(message)\<close>; a TypeError when a property of
  \<open>undefined\<close> or \<open>null\<close> is read or a missing method is called; the SyntaxError of
  \<open>response.json()\<close> on a body that is not JSON; the InvalidCharacterError of \<open>atob\<close>; and
  the rejection of \<open>fetch\<close> itself.
\<close>

datatype js_error = Error string | TypeError | SyntaxError | InvalidCharacterError | FetchFailed

definition truthy :: "jsval option \<Rightarrow> bool" where
  "truthy v =
     (case v of
        None \<Rightarrow> False
      | Some JNull \<Rightarrow> False
      | Some (JBool b) \<Rightarrow> b
      | Some (JNum n) \<Rightarrow> n \<noteq> 0
      | Some (JStr s) \<Rightarrow> s \<noteq> []
      | Some (JArr xs) \<Rightarrow> True
      | Some (JObj fs) \<Rightarrow> True)"

text \<open>\<open>a || b\<close> with \<open>b\<close> defined.\<close>

definition js_or :: "jsval option \<Rightarrow> jsval \<Rightarrow> jsval" where
  "js_or a b = (case a of None \<Rightarrow> b | Some x \<Rightarrow> if truthy a then x else b)"

text \<open>
  Reading the property \<open>k\<close> of a value that is neither \<open>undefined\<close> nor \<open>null\<close>. The source
  reads only the names \<open>choices\<close>, \<open>message\<close>, \<open>content\<close>, \<open>data\<close>, \<open>b64_json\<close>, \<open>error\<close> and
  the index \<open>0\<close>; none of the names is a property of an array, a string, a number or a
  boolean, and the index 0 of a string is its first character.
\<close>

fun get_prop :: "jsval \<Rightarrow> string \<Rightarrow> jsval option" where
  "get_prop (JObj fs) k = map_of fs k"
| "get_prop (JArr xs) k = (if k = ''0'' then (case xs of [] \<Rightarrow> None | x # _ \<Rightarrow> Some x) else None)"
| "get_prop (JStr s) k =
     (if k = ''0'' then (case s of [] \<Rightarrow> None | ch # _ \<Rightarrow> Some (JStr [ch])) else None)"
| "get_prop JNull k = None"
| "get_prop (JBool b) k = None"
| "get_prop (JNum n) k = None"

definition js_get :: "jsval option \<Rightarrow> string \<Rightarrow> js_error + jsval option" where
  "js_get v k =
     (case v of
        None \<Rightarrow> Inl TypeError
      | Some JNull \<Rightarrow> Inl TypeError
      | Some x \<Rightarrow> Inr (get_prop x k))"

fun js_path :: "jsval option \<Rightarrow> string list \<Rightarrow> js_error + jsval option" where
  "js_path v [] = Inr v"
| "js_path v (k # ks) = (case js_get v k of Inl e \<Rightarrow> Inl e | Inr v' \<Rightarrow> js_path v' ks)"

fun show_nat :: "nat \<Rightarrow> string" where
  "show_nat n =
     (if n < 10 then [''0123456789'' ! n]
      else show_nat (n div 10) @ [''0123456789'' ! (n mod 10)])"

declare show_nat.simps [simp del]

definition show_int :: "int \<Rightarrow> string" where
  "show_int i = (if i < 0 then CHR ''-'' # show_nat (nat (- i)) else show_nat (nat i))"

fun join :: "string \<Rightarrow> string list \<Rightarrow> string" where
  "join sep [] = []"
| "join sep [x] = x"
| "join sep (x # y # ys) = x @ sep @ join sep (y # ys)"

text \<open>String conversion, as a template literal and the \<open>Error\<close> constructor apply it.\<close>

fun js_toString :: "jsval \<Rightarrow> string" where
  "js_toString JNull = ''null''"
| "js_toString (JBool b) = (if b then ''true'' else ''false'')"
| "js_toString (JNum n) = show_int (sint n)"
| "js_toString (JStr s) = s"
| "js_toString (JArr xs) = join '','' (map (\<lambda>x. if x = JNull then [] else js_toString x) xs)"
| "js_toString (JObj fs) = ''[object Object]''"

definition hex_digit :: "nat \<Rightarrow> char" where
  "hex_digit n = ''0123456789abcdef'' ! n"

definition quote_char :: "char \<Rightarrow> string" where
  "quote_char ch =
     (if ch = CHR 0x08 then [CHR 0x5C, CHR ''b'']
      else if ch = CHR 0x09 then [CHR 0x5C, CHR ''t'']
      else if ch = CHR 0x0A then [CHR 0x5C, CHR ''n'']
      else if ch = CHR 0x0C then [CHR 0x5C, CHR ''f'']
      else if ch = CHR 0x0D then [CHR 0x5C, CHR ''r'']
      else if ch = CHR 0x22 then [CHR 0x5C, CHR 0x22]
      else if ch = CHR 0x5C then [CHR 0x5C, CHR 0x5C]
      else if (of_char ch :: nat) < 32 then
        [CHR 0x5C, CHR ''u'', CHR ''0'', CHR ''0'',
         hex_digit (of_char ch div 16), hex_digit (of_char ch mod 16)]
      else [ch])"

definition quoteJSONString :: "string \<Rightarrow> string" where
  "quoteJSONString s = [CHR 0x22] @ concat (map quote_char s) @ [CHR 0x22]"

fun JSON_stringify :: "jsval \<Rightarrow> string" where
  "JSON_stringify JNull = ''null''"
| "JSON_stringify (JBool b) = (if b then ''true'' else ''false'')"
| "JSON_stringify (JNum n) = show_int (sint n)"
| "JSON_stringify (JStr s) = quoteJSONString s"
| "JSON_stringify (JArr xs) = ''['' @ join '','' (map JSON_stringify xs) @ '']''"
| "JSON_stringify (JObj fs) =
     ''{'' @ join '','' (map (\<lambda>kv. quoteJSONString (fst kv) @ '':'' @ JSON_stringify (snd kv)) fs)
       @ ''}''"

text \<open>
  \<open>String.prototype.trim\<close>: white space and line terminators are removed at both ends
  (below 256 these are the code points 9 to 13, 32 and 160).
\<close>

definition js_whitespace :: "char \<Rightarrow> bool" where
  "js_whitespace ch = ((of_char ch :: nat) \<in> {9, 10, 11, 12, 13, 32, 160})"

definition js_trim :: "string \<Rightarrow> string" where
  "js_trim s = rev (dropWhile js_whitespace (rev (dropWhile js_whitespace s)))"

fun split_on :: "char \<Rightarrow> string \<Rightarrow> string list" where
  "split_on sep [] = [[]]"
| "split_on sep (x # xs) =
     (if x = sep then [] # split_on sep xs
      else (case split_on sep xs of [] \<Rightarrow> [[x]] | p # ps \<Rightarrow> (x # p) # ps))"

subsection \<open>Base64 decoding\<close>

text \<open>
  \<open>atob\<close> is the forgiving base64 decoder of the platform: ASCII white space is removed, up
  to two padding signs are dropped when the length is a multiple of four, a length of
  remainder one or a character outside the alphabet throws, and the remaining bits are
  read six at a time. The result is a binary string; \<open>None\<close> is the thrown error.
\<close>

definition b64_alphabet :: string where
  "b64_alphabet = ''ABCDEFGHIJKLMNOPQRSTUVWXYZabcdefghijklmnopqrstuvwxyz0123456789+/''"

fun index_of :: "'a \<Rightarrow> 'a list \<Rightarrow> nat option" where
  "index_of x [] = None"
| "index_of x (y # ys) = (if x = y then Some 0 else map_option Suc (index_of x ys))"

definition ascii_whitespace :: "char \<Rightarrow> bool" where
  "ascii_whitespace ch = ((of_char ch :: nat) \<in> {9, 10, 12, 13, 32})"

definition strip_padding :: "string \<Rightarrow> string" where
  "strip_padding s =
     (if length s mod 4 = 0 then
        (if s \<noteq> [] \<and> last s = CHR ''='' then
           (if butlast s \<noteq> [] \<and> last (butlast s) = CHR ''='' then butlast (butlast s)
            else butlast s)
         else s)
      else s)"

fun b64_groups :: "nat list \<Rightarrow> nat list" where
  "b64_groups (a # b # c # d # rest) =
     [a * 4 + b div 16, (b mod 16) * 16 + c div 4, (c mod 4) * 64 + d] @ b64_groups rest"
| "b64_groups [a, b, c] = [a * 4 + b div 16, (b mod 16) * 16 + c div 4]"
| "b64_groups [a, b] = [a * 4 + b div 16]"
| "b64_groups [a] = []"
| "b64_groups [] = []"

definition atob :: "string \<Rightarrow> string option" where
  "atob d =
     (let s = strip_padding (filter (\<lambda>ch. \<not> ascii_whitespace ch) d)
      in if length s mod 4 = 1 then None
         else (case those (map (\<lambda>ch. index_of ch b64_alphabet) s) of
                 None \<Rightarrow> None
               | Some vs \<Rightarrow> Some (map char_of (b64_groups vs))))"

text \<open>The loop \<open>bytes[j] = binaryString.charCodeAt(j)\<close> into a \<open>Uint8Array\<close>.\<close>

definition binaryToBytes :: "string \<Rightarrow> 8 word list" where
  "binaryToBytes binaryString = map (\<lambda>ch. of_nat (of_char ch)) binaryString"

datatype blob = Blob (bytes: "8 word list") (mimeType: string)

section \<open>The network and the observable effects\<close>

text \<open>
  A request as passed to \<open>fetch\<close> (\<open>httpMethod\<close> is its \<open>method\<close>). A body
  \<open>JsonBody v\<close> is the string \<open>JSON.stringify(v)\<close> of the source, kept as the JSON value
  it denotes; a \<open>FormData\<close> body is the list of its entries in the order of the \<open>append\<close>
  calls, a text field or a file with its name. \<open>append\<close> converts a value that is neither
  a string nor a blob to a string; for a built-in function that string is the source text
  the engine prints, which differs between engines: \<open>FunctionSourceField n f\<close> is the entry
  \<open>n\<close> whose value is the source text of the built-in function \<open>f\<close> of \<open>Object.prototype\<close>.
\<close>

datatype form_entry =
    TextField string string
  | FileField string blob string
  | FunctionSourceField string string

datatype body = JsonBody jsval | FormDataBody "form_entry list"

record request =
  url :: string
  httpMethod :: string
  headers :: "(string \<times> string) list"
  body :: body

text \<open>
  What \<open>fetch\<close> gives back: a rejection, or a response with its \<open>ok\<close> flag, its status
  text and the outcome of \<open>response.json()\<close> (\<open>None\<close> when the body is not JSON). The network
  is any function of the requests made so far and the current request.
\<close>

datatype response = FetchRejected | Response bool string "jsval option"

type_synonym network = "request list \<Rightarrow> request \<Rightarrow> response"

datatype console_entry = Warn string js_error

record world =
  trace :: "request list"
  console :: "console_entry list"

definition fetch :: "network \<Rightarrow> request \<Rightarrow> world \<Rightarrow> response \<times> world" where
  "fetch net req w = (net (trace w) req, w\<lparr>trace := trace w @ [req]\<rparr>)"

text \<open>
  A test double of the network: the n-th request gets the n-th response of a script, and
  every request after the end of the script is rejected.
\<close>

definition scripted_network :: "response list \<Rightarrow> network" where
  "scripted_network script tr req =
     (if length tr < length script then script ! length tr else FetchRejected)"

definition initial_world :: world where
  "initial_world = \<lparr>trace = [], console = []\<rparr>"

section \<open>The direct client (class OpenAIClient)\<close>

record OpenAIClient =
  apiKey :: string
  baseUrl :: string

definition OpenAIClient_new :: "string \<Rightarrow> OpenAIClient" where
  "OpenAIClient_new key = \<lparr>apiKey = key, baseUrl = ''https://api.openai.com/v1''\<rparr>"

text \<open>
  The three internal methods end in the same code: a response that is not ok throws
  \<open>OpenAI API error:\<close> with \<open>error.error?.message || response.statusText\<close>, where \<open>error\<close> is
  the parsed body, or \<open>{error: {message: statusText}}\<close> when the body does not parse; an ok
  response returns its parsed body.
\<close>

definition openaiError :: "string \<Rightarrow> jsval option \<Rightarrow> js_error" where
  "openaiError statusText parsed =
     (let error = (case parsed of
                     None \<Rightarrow> JObj [(''error'', JObj [(''message'', JStr statusText)])]
                   | Some e \<Rightarrow> e)
      in case js_get (Some error) ''error'' of
           Inl e \<Rightarrow> e
         | Inr inner \<Rightarrow>
             (let message = (case inner of
                               None \<Rightarrow> None
                             | Some JNull \<Rightarrow> None
                             | Some x \<Rightarrow> get_prop x ''message'')
              in Error (''OpenAI API error: '' @ js_toString (js_or message (JStr statusText)))))"

definition openaiResponse :: "response \<Rightarrow> js_error + jsval" where
  "openaiResponse r =
     (case r of
        FetchRejected \<Rightarrow> Inl FetchFailed
      | Response ok statusText parsed \<Rightarrow>
          if \<not> ok then Inl (openaiError statusText parsed)
          else (case parsed of None \<Rightarrow> Inl SyntaxError | Some v \<Rightarrow> Inr v))"

definition jsonRequest :: "OpenAIClient \<Rightarrow> string \<Rightarrow> jsval \<Rightarrow> request" where
  "jsonRequest c path params =
     \<lparr>url = baseUrl c @ path, httpMethod = ''POST'',
      headers = [(''Content-Type'', ''application/json''),
                 (''Authorization'', ''Bearer '' @ apiKey c)],
      body = JsonBody params\<rparr>"

definition OpenAIClient_chatCompletion ::
  "network \<Rightarrow> OpenAIClient \<Rightarrow> jsval \<Rightarrow> world \<Rightarrow> (js_error + jsval) \<times> world" where
  "OpenAIClient_chatCompletion net c params w =
     (case fetch net (jsonRequest c ''/chat/completions'' params) w of
        (r, w') \<Rightarrow> (openaiResponse r, w'))"

definition OpenAIClient_imageGeneration ::
  "network \<Rightarrow> OpenAIClient \<Rightarrow> jsval \<Rightarrow> world \<Rightarrow> (js_error + jsval) \<times> world" where
  "OpenAIClient_imageGeneration net c params w =
     (case fetch net (jsonRequest c ''/images/generations'' params) w of
        (r, w') \<Rightarrow> (openaiResponse r, w'))"

subsection \<open>generateDescription\<close>

definition noReferenceImages :: string where
  "noReferenceImages = ''No reference images provided.''"

definition referenceImagesParams :: "string list \<Rightarrow> jsval" where
  "referenceImagesParams referenceImages =
     JObj [(''model'', JStr ''gpt-4o''),
           (''messages'', JArr [
              JObj [(''role'', JStr ''system''),
                    (''content'', JStr ''You are a helpful assistant that generates detailed physical descriptions of provided images.'')],
              JObj [(''role'', JStr ''user''),
                    (''content'', JArr (
                       JObj [(''type'', JStr ''text''),
                             (''text'', JStr ''Generate a detailed physical description of the subject of the image.'')]
                       # map (\<lambda>base64Image.
                              JObj [(''type'', JStr ''image_url''),
                                    (''image_url'', JObj [(''url'', JStr base64Image)])])
                           referenceImages))]])]"

text \<open>
  The body of the \<open>try\<close> block: the describe call for the reference images and the read of
  \<open>imageDescResponse.choices[0].message.content\<close>; \<open>Inl\<close> is what the block throws.
\<close>

definition referenceImagesChat ::
  "network \<Rightarrow> OpenAIClient \<Rightarrow> string list \<Rightarrow> world \<Rightarrow> (js_error + jsval option) \<times> world" where
  "referenceImagesChat net c referenceImages w =
     (case OpenAIClient_chatCompletion net c (referenceImagesParams referenceImages) w of
        (Inl e, w') \<Rightarrow> (Inl e, w')
      | (Inr imageDescResponse, w') \<Rightarrow>
          (js_path (Some imageDescResponse) [''choices'', ''0'', ''message'', ''content''], w'))"

text \<open>
  The first part of \<open>generateDescription\<close>: \<open>imageDescription\<close> starts as the sentinel, is
  replaced by a truthy content of the describe call, and stays the sentinel when the
  \<open>try\<close> block throws, which the \<open>catch\<close> logs with \<open>console.warn\<close>.
\<close>

definition describeReferenceImages ::
  "network \<Rightarrow> OpenAIClient \<Rightarrow> string list \<Rightarrow> world \<Rightarrow> jsval \<times> world" where
  "describeReferenceImages net c referenceImages w =
     (if referenceImages \<noteq> [] then
        (case referenceImagesChat net c referenceImages w of
           (Inl err, w') \<Rightarrow>
             (JStr noReferenceImages,
              w'\<lparr>console := console w' @ [Warn ''Failed to describe reference images:'' err]\<rparr>)
         | (Inr content, w') \<Rightarrow> (js_or content (JStr noReferenceImages), w'))
      else (JStr noReferenceImages, w))"

definition promptJson :: "string \<Rightarrow> jsval \<Rightarrow> string \<Rightarrow> jsval" where
  "promptJson userText imageDescription contextPrompt =
     JObj [(''properties'', JObj [
       (''text'', JObj [
          (''type'', JStr ''string''),
          (''description'', JStr ''Long-form detailed information about the subject (e.g., possibly from a journal entry). May include irrelevant details; focus on physical description.''),
          (''value'', JStr userText)]),
       (''reference_images_description'', JObj [
          (''type'', JStr ''string''),
          (''description'', JStr ''A detailed physical description of the subject based on the provided reference images. If no reference images were provided, this will be an empty string.''),
          (''value'', imageDescription)]),
       (''prompt'', JObj [
          (''type'', JStr ''string''),
          (''description'', JStr ''The context prompt for the description. This is what the user wants you to focus on when generating the description. It may even contradict details in the long-form text and/or reference images. Always prioritize this prompt over the long-form text and/or reference images.''),
          (''value'', JStr contextPrompt)])])]"

definition refineParams :: "string \<Rightarrow> string \<Rightarrow> jsval \<Rightarrow> string \<Rightarrow> jsval" where
  "refineParams systemPrompt userText imageDescription contextPrompt =
     JObj [(''model'', JStr ''gpt-4o''),
           (''messages'', JArr [
              JObj [(''role'', JStr ''system''), (''content'', JStr systemPrompt)],
              JObj [(''role'', JStr ''user''),
                    (''content'', JArr [
                       JObj [(''type'', JStr ''text''),
                             (''text'', JStr (JSON_stringify
                                (promptJson userText imageDescription contextPrompt)))]])]])]"

text \<open>
  The checks on the response of the refinement call: the first choice must exist, its
  content (or the empty string) is trimmed, and a blank result throws.
\<close>

definition parseDescription :: "jsval \<Rightarrow> js_error + string" where
  "parseDescription response =
     (case js_get (Some response) ''choices'' of
        Inl e \<Rightarrow> Inl e
      | Inr choices \<Rightarrow>
          if \<not> truthy choices then Inl (Error ''No response from OpenAI API.'')
          else (case js_get choices ''0'' of
                  Inl e \<Rightarrow> Inl e
                | Inr choice \<Rightarrow>
                    if \<not> truthy choice then Inl (Error ''No response from OpenAI API.'')
                    else (case js_path choice [''message'', ''content''] of
                            Inl e \<Rightarrow> Inl e
                          | Inr content \<Rightarrow>
                              (case js_or content (JStr []) of
                                 JStr s \<Rightarrow>
                                   (let descriptionText = js_trim s
                                    in if descriptionText = []
                                       then Inl (Error ''Parsed description is empty.'')
                                       else Inr descriptionText)
                               | _ \<Rightarrow> Inl TypeError))))"

definition refineDescription ::
  "network \<Rightarrow> OpenAIClient \<Rightarrow> string \<Rightarrow> string \<Rightarrow> jsval \<Rightarrow> string \<Rightarrow> world
     \<Rightarrow> (js_error + string) \<times> world" where
  "refineDescription net c systemPrompt userText imageDescription contextPrompt w =
     (case OpenAIClient_chatCompletion net c
             (refineParams systemPrompt userText imageDescription contextPrompt) w of
        (Inl e, w') \<Rightarrow> (Inl e, w')
      | (Inr response, w') \<Rightarrow> (parseDescription response, w'))"

definition OpenAIClient_generateDescription ::
  "network \<Rightarrow> OpenAIClient \<Rightarrow> string \<Rightarrow> string \<Rightarrow> string \<Rightarrow> string list \<Rightarrow> world
     \<Rightarrow> (js_error + string) \<times> world" where
  "OpenAIClient_generateDescription net c systemPrompt userText contextPrompt referenceImages w =
     (case describeReferenceImages net c referenceImages w of
        (imageDescription, w1) \<Rightarrow>
          refineDescription net c systemPrompt userText imageDescription contextPrompt w1)"

subsection \<open>generateImage\<close>

text \<open>
  The check shared by both synthesis paths: \<open>data\<close>, \<open>data[0]\<close> and \<open>data[0].b64_json\<close> must
  be truthy, and the last one is returned.
\<close>

definition imageData :: "jsval \<Rightarrow> js_error + jsval" where
  "imageData result =
     (case js_get (Some result) ''data'' of
        Inl e \<Rightarrow> Inl e
      | Inr d \<Rightarrow>
          if \<not> truthy d then Inl (Error ''No image data returned from OpenAI API.'')
          else (case js_get d ''0'' of
                  Inl e \<Rightarrow> Inl e
                | Inr d0 \<Rightarrow>
                    if \<not> truthy d0 then Inl (Error ''No image data returned from OpenAI API.'')
                    else (case js_get d0 ''b64_json'' of
                            Inl e \<Rightarrow> Inl e
                          | Inr b \<Rightarrow>
                              (case b of
                                 None \<Rightarrow> Inl (Error ''No image data returned from OpenAI API.'')
                               | Some x \<Rightarrow>
                                   if \<not> truthy b
                                   then Inl (Error ''No image data returned from OpenAI API.'')
                                   else Inr x))))"

text \<open>
  One pass of the loop of \<open>_imageEdit\<close>: the part after the first comma of the data URI
  (the whole string when there is none or it is empty) is decoded into a PNG blob.
\<close>

definition referenceBlob :: "string \<Rightarrow> js_error + blob" where
  "referenceBlob base64Image =
     (let base64Data = (case split_on CHR '','' base64Image of
                          p0 # p1 # ps \<Rightarrow> if p1 \<noteq> [] then p1 else base64Image
                        | _ \<Rightarrow> base64Image)
      in case atob base64Data of
           None \<Rightarrow> Inl InvalidCharacterError
         | Some binaryString \<Rightarrow> Inr (Blob (binaryToBytes binaryString) ''image/png''))"

fun referenceParts :: "nat \<Rightarrow> string list \<Rightarrow> js_error + form_entry list" where
  "referenceParts i [] = Inr []"
| "referenceParts i (base64Image # rest) =
     (case referenceBlob base64Image of
        Inl e \<Rightarrow> Inl e
      | Inr b \<Rightarrow>
          (case referenceParts (Suc i) rest of
             Inl e \<Rightarrow> Inl e
           | Inr parts \<Rightarrow>
               Inr (FileField ''image'' b (''reference_'' @ show_nat i @ ''.png'') # parts)))"

definition editFields ::
  "string \<Rightarrow> string \<Rightarrow> string \<Rightarrow> string \<Rightarrow> string \<Rightarrow> form_entry list" where
  "editFields model prompt sizeStr quality background =
     [TextField ''model'' model, TextField ''prompt'' prompt, TextField ''size'' sizeStr,
      TextField ''quality'' quality, TextField ''background'' background, TextField ''n'' ''1'']"

definition editRequest :: "OpenAIClient \<Rightarrow> form_entry list \<Rightarrow> request" where
  "editRequest c formData =
     \<lparr>url = baseUrl c @ ''/images/edits'', httpMethod = ''POST'',
      headers = [(''Authorization'', ''Bearer '' @ apiKey c)],
      body = FormDataBody formData\<rparr>"

definition OpenAIClient_imageEdit ::
  "network \<Rightarrow> OpenAIClient \<Rightarrow> string \<Rightarrow> string list \<Rightarrow> string \<Rightarrow> string \<Rightarrow> string \<Rightarrow> string
     \<Rightarrow> world \<Rightarrow> (js_error + jsval) \<times> world" where
  "OpenAIClient_imageEdit net c prompt referenceImages model sizeStr quality background w =
     (case referenceParts 0 referenceImages of
        Inl e \<Rightarrow> (Inl e, w)
      | Inr parts \<Rightarrow>
          (case fetch net
                  (editRequest c (editFields model prompt sizeStr quality background @ parts)) w of
             (r, w') \<Rightarrow>
               (case openaiResponse r of
                  Inl e \<Rightarrow> (Inl e, w')
                | Inr result \<Rightarrow> (imageData result, w'))))"

definition generationParams ::
  "string \<Rightarrow> string \<Rightarrow> string \<Rightarrow> string \<Rightarrow> string \<Rightarrow> jsval" where
  "generationParams model prompt sizeStr quality background =
     JObj [(''model'', JStr model), (''prompt'', JStr prompt), (''size'', JStr sizeStr),
           (''quality'', JStr quality), (''background'', JStr background), (''n'', JNum 1)]"

text \<open>
  \<open>generateImage\<close> takes an options object; an option left out (\<open>None\<close>) takes its default.
\<close>

definition withDefault :: "'a \<Rightarrow> 'a option \<Rightarrow> 'a" where
  "withDefault d v = (case v of None \<Rightarrow> d | Some x \<Rightarrow> x)"

definition OpenAIClient_generateImage ::
  "network \<Rightarrow> OpenAIClient \<Rightarrow> string \<Rightarrow> string list \<Rightarrow> string option \<Rightarrow> string option
     \<Rightarrow> string option \<Rightarrow> string option \<Rightarrow> world \<Rightarrow> (js_error + jsval) \<times> world" where
  "OpenAIClient_generateImage net c prompt referenceImages model sizeStr quality background w =
     (let model' = withDefault ''gpt-image-1-mini'' model;
          size' = withDefault ''1024x1024'' sizeStr;
          quality' = withDefault ''medium'' quality;
          background' = withDefault ''transparent'' background
      in if referenceImages \<noteq> [] then
           OpenAIClient_imageEdit net c prompt referenceImages model' size' quality' background' w
         else
           (case OpenAIClient_imageGeneration net c
                   (generationParams model' prompt size' quality' background') w of
              (Inl e, w') \<Rightarrow> (Inl e, w')
            | (Inr response, w') \<Rightarrow> (imageData response, w')))"

section \<open>The generators (class ImageGenerator and its four subclasses)\<close>

datatype kind = Character | Scene | Creature | Item

record ImageGenerator =
  kind :: kind
  client :: OpenAIClient
  defaultImageSize :: string

text \<open>
  The texts of the four subclasses. A prompt template \<open>`head${description}tail`\<close> is kept
  as its two constant parts.
\<close>

definition characterSystemPrompt :: string where
  "characterSystemPrompt =
     ''You are a helpful assistant that creates short but detailed character descriptions based on the prompt provided and a general description of the character. Always give preference to the prompt over the general description (e.g., the prompt might ask them to wear a specific outfit or have a certain hairstyle while the general description describes them as typically wearing a different outfit). This will be used as a prompt for generating an image, so be as consistent and descriptive as possible. Include any relevant physical details that someone would need to accurately visualize the character. Focus on the physical description and do not include any names (even the character's name), personality traits, lore, etc.''"

definition characterPromptHead :: string where
  "characterPromptHead =
     ''Highly stylized digital concept art profile of ''"

definition characterPromptTail :: string where
  "characterPromptTail =
     ''. Rendered in a fantasy-steampunk illustration style inspired by graphic novel and fantasy RPG character art with bold, clean line work, muted yet rich colors, and dramatic cel-shading. Facial features are expressive and detailed, with textured hair and stylized lighting that adds depth and mood. The background fades into negative space, as if the character is emerging from the page. The character is looking directly at the viewer. The background is white. The character is centered in the frame, with their head and shoulders fitting within the image.''"

definition sceneSystemPrompt :: string where
  "sceneSystemPrompt =
     ''You are a helpful assistant that creates short but detailed scene descriptions based on the prompt provided and a general description of the scene. Always give preference to the prompt over the general description (e.g., the prompt might ask for a specific setting or time of day while the general description describes a different setting). This will be used as a prompt for generating an image, so be as consistent and descriptive as possible. Focus on the physical description and do not include any names, personality traits, lore, etc.''"

definition scenePromptHead :: string where
  "scenePromptHead =
     ''Highly stylized digital concept art''"

definition scenePromptTail :: string where
  "scenePromptTail =
     ''. Rendered in a fantasy illustration style inspired by graphic novel and fantasy RPG scene art with bold, clean line work, muted yet rich colors, and dramatic cel-shading. The background fades into negative space, as if the scene is emerging from the page. The scene is from a ground, first-person perspective, with a wide view of the environment. Focus on the physical description and do not include any names, personality traits, lore, etc. The background is white.''"

definition creatureSystemPrompt :: string where
  "creatureSystemPrompt =
     ''You are a helpful assistant that creates short but detailed creature descriptions based on the prompt provided and a general description of the creature's appearance. Always give preference to the prompt over the general description (e.g., the prompt might ask them to have a specific feature or color while the general description describes them as typically having different features). This will be used as a prompt for generating an image, so be as consistent and descriptive as possible. Focus on the physical description and do not include any names (even the creature's name), personality traits, lore, etc.''"

definition creaturePromptHead :: string where
  "creaturePromptHead =
     ''Highly stylized digital concept art profile of ''"

definition creaturePromptTail :: string where
  "creaturePromptTail =
     ''. Rendered in a fantasy illustration style inspired by graphic novel and fantasy RPG creature art with bold, clean line work, muted yet rich colors, and dramatic cel-shading. Facial features are expressive and detailed, with textured skin/fur/scales and stylized lighting that adds depth and mood. The background fades into negative space, as if the creature is emerging from the page. The creature is looking directly at the viewer. The background is white. The creature is centered in the frame, with their head and shoulders fitting within the image.''"

definition itemSystemPrompt :: string where
  "itemSystemPrompt =
     ''You are a helpful assistant that creates short but detailed item descriptions based on the prompt provided and a general description of the item's appearance. Always give preference to the prompt over the general description (e.g., the prompt might ask for a specific material or design while the general description describes it as typically having different features). This will be used as a prompt for generating an image, so be as consistent and descriptive as possible. Only relate the physical description of the item and do not include any names (even of the item itself), lore, personality, etc.''"

definition itemPromptHead :: string where
  "itemPromptHead =
     ''Highly stylized digital concept art of ''"

definition itemPromptTail :: string where
  "itemPromptTail =
     ''. Rendered in a fantasy illustration style inspired by graphic novel and fantasy RPG item art with bold, clean line work, muted yet rich colors, and dramatic cel-shading. The item is detailed and textured, with stylized lighting that adds depth and mood. The background fades into negative space, as if the item is emerging from the page. The item is centered in the frame, fitting within the image with space around it. The background is white.''"

fun getDefaultContextPrompt :: "kind \<Rightarrow> string" where
  "getDefaultContextPrompt Character = ''Generate a physical description of a character.''"
| "getDefaultContextPrompt Scene = []"
| "getDefaultContextPrompt Creature = ''Generate a physical description of a creature.''"
| "getDefaultContextPrompt Item = ''Generate a physical description of the item.''"

fun getSystemPrompt :: "kind \<Rightarrow> string" where
  "getSystemPrompt Character = characterSystemPrompt"
| "getSystemPrompt Scene = sceneSystemPrompt"
| "getSystemPrompt Creature = creatureSystemPrompt"
| "getSystemPrompt Item = itemSystemPrompt"

fun getPrompt :: "kind \<Rightarrow> string \<Rightarrow> string" where
  "getPrompt Character description = characterPromptHead @ description @ characterPromptTail"
| "getPrompt Scene description =
     (let specific = (if description \<noteq> [] then '' featuring '' @ description else [])
      in scenePromptHead @ specific @ scenePromptTail)"
| "getPrompt Creature description = creaturePromptHead @ description @ creaturePromptTail"
| "getPrompt Item description = itemPromptHead @ description @ itemPromptTail"

definition createGenerator :: "string \<Rightarrow> OpenAIClient \<Rightarrow> js_error + ImageGenerator" where
  "createGenerator type openaiClient =
     (if type = ''character'' then
        Inr \<lparr>kind = Character, client = openaiClient, defaultImageSize = ''1024x1024''\<rparr>
      else if type = ''scene'' then
        Inr \<lparr>kind = Scene, client = openaiClient, defaultImageSize = ''1024x1024''\<rparr>
      else if type = ''creature'' then
        Inr \<lparr>kind = Creature, client = openaiClient, defaultImageSize = ''1024x1024''\<rparr>
      else if type = ''item'' then
        Inr \<lparr>kind = Item, client = openaiClient, defaultImageSize = ''1024x1024''\<rparr>
      else Inl (Error (''Unknown generator type: '' @ type)))"

text \<open>\<open>prompt || this.getDefaultContextPrompt()\<close>; a prompt that is null is \<open>None\<close>.\<close>

definition ImageGenerator_getDescription ::
  "network \<Rightarrow> ImageGenerator \<Rightarrow> string \<Rightarrow> string option \<Rightarrow> string list \<Rightarrow> world
     \<Rightarrow> (js_error + string) \<times> world" where
  "ImageGenerator_getDescription net g text prompt referenceImages w =
     (let contextPrompt = (case prompt of
                             None \<Rightarrow> getDefaultContextPrompt (kind g)
                           | Some p \<Rightarrow> if p \<noteq> [] then p else getDefaultContextPrompt (kind g));
          systemPrompt = getSystemPrompt (kind g)
      in OpenAIClient_generateDescription net (client g) systemPrompt text contextPrompt
           referenceImages w)"

text \<open>
  The size table is an object literal read with \<open>sizeMap[aspectRatio] || '1024x1024'\<close>. A
  name of the table gives its string. A name the literal inherits from \<open>Object.prototype\<close>
  gives the inherited member, which is truthy and not a string: one of eleven built-in
  functions, or \<open>Object.prototype\<close> itself for \<open>__proto__\<close>. Every other name gives
  \<open>undefined\<close> and so the default.
\<close>

definition sizeMap :: "(string \<times> string) list" where
  "sizeMap = [(''square'', ''1024x1024''), (''landscape'', ''1536x1024''),
              (''portrait'', ''1024x1536'')]"

definition objectPrototypeFunctions :: "string list" where
  "objectPrototypeFunctions =
     [''constructor'', ''hasOwnProperty'', ''isPrototypeOf'', ''propertyIsEnumerable'',
      ''toLocaleString'', ''toString'', ''valueOf'', ''__defineGetter__'',
      ''__defineSetter__'', ''__lookupGetter__'', ''__lookupSetter__'']"

datatype size_value = SizeString string | InheritedFunction string | ObjectPrototype

definition mapAspectRatioToSize :: "string \<Rightarrow> size_value" where
  "mapAspectRatioToSize aspectRatio =
     (case map_of sizeMap aspectRatio of
        Some s \<Rightarrow> if s \<noteq> [] then SizeString s else SizeString ''1024x1024''
      | None \<Rightarrow>
          if aspectRatio = ''__proto__'' then ObjectPrototype
          else if aspectRatio \<in> set objectPrototypeFunctions then InheritedFunction aspectRatio
          else SizeString ''1024x1024'')"

text \<open>
  \<open>OpenAIClient.generateImage\<close> as the generator calls it (model, size and quality given,
  no background) when the size is such an inherited member and no string; the default of
  the option applies to \<open>undefined\<close> only. Without reference images \<open>JSON.stringify\<close>
  leaves a property whose value is a function out of the body and writes
  \<open>Object.prototype\<close>, which has no enumerable property, as the empty object. With
  reference images \<open>formData.append\<close> converts the value to a string, \<open>[object Object]\<close> for
  \<open>Object.prototype\<close>. On a size that is a string this is \<open>OpenAIClient_generateImage\<close>.
\<close>

definition sizeProperty :: "size_value \<Rightarrow> (string \<times> jsval) list" where
  "sizeProperty v =
     (case v of
        SizeString s \<Rightarrow> [(''size'', JStr s)]
      | InheritedFunction f \<Rightarrow> []
      | ObjectPrototype \<Rightarrow> [(''size'', JObj [])])"

definition sizeEntry :: "size_value \<Rightarrow> form_entry" where
  "sizeEntry v =
     (case v of
        SizeString s \<Rightarrow> TextField ''size'' s
      | InheritedFunction f \<Rightarrow> FunctionSourceField ''size'' f
      | ObjectPrototype \<Rightarrow> TextField ''size'' ''[object Object]'')"

definition OpenAIClient_generateImage_inherited ::
  "network \<Rightarrow> OpenAIClient \<Rightarrow> string \<Rightarrow> string list \<Rightarrow> string \<Rightarrow> size_value \<Rightarrow> string
     \<Rightarrow> world \<Rightarrow> (js_error + jsval) \<times> world" where
  "OpenAIClient_generateImage_inherited net c prompt referenceImages model sizeValue quality w =
     (if referenceImages \<noteq> [] then
        (case referenceParts 0 referenceImages of
           Inl e \<Rightarrow> (Inl e, w)
         | Inr parts \<Rightarrow>
             (case fetch net
                     (editRequest c
                        ([TextField ''model'' model, TextField ''prompt'' prompt,
                          sizeEntry sizeValue, TextField ''quality'' quality,
                          TextField ''background'' ''transparent'', TextField ''n'' ''1'']
                         @ parts)) w of
                (r, w') \<Rightarrow>
                  (case openaiResponse r of
                     Inl e \<Rightarrow> (Inl e, w')
                   | Inr result \<Rightarrow> (imageData result, w'))))
      else
        (case OpenAIClient_imageGeneration net c
                (JObj ([(''model'', JStr model), (''prompt'', JStr prompt)]
                       @ sizeProperty sizeValue
                       @ [(''quality'', JStr quality), (''background'', JStr ''transparent''),
                          (''n'', JNum 1)])) w of
           (Inl e, w') \<Rightarrow> (Inl e, w')
         | (Inr response, w') \<Rightarrow> (imageData response, w')))"

definition ImageGenerator_generateImage ::
  "network \<Rightarrow> ImageGenerator \<Rightarrow> string \<Rightarrow> string list \<Rightarrow> string option \<Rightarrow> string option
     \<Rightarrow> string option \<Rightarrow> string option \<Rightarrow> world \<Rightarrow> (js_error + blob) \<times> world" where
  "ImageGenerator_generateImage net g description referenceImages model imageSize quality
       aspectRatio w =
     (let model' = withDefault ''gpt-image-1-mini'' model;
          quality' = withDefault ''medium'' quality;
          aspectRatio' = withDefault ''square'' aspectRatio;
          imageSize' = (case imageSize of
                          None \<Rightarrow> defaultImageSize g
                        | Some s \<Rightarrow> if s \<noteq> [] then s else defaultImageSize g);
          sizeValue = mapAspectRatioToSize aspectRatio';
          prompt = getPrompt (kind g) description
      in case (case sizeValue of
                 SizeString sizeStr \<Rightarrow>
                   OpenAIClient_generateImage net (client g) prompt referenceImages
                     (Some model') (Some sizeStr) (Some quality') None w
               | InheritedFunction f \<Rightarrow>
                   OpenAIClient_generateImage_inherited net (client g) prompt referenceImages
                     model' sizeValue quality' w
               | ObjectPrototype \<Rightarrow>
                   OpenAIClient_generateImage_inherited net (client g) prompt referenceImages
                     model' sizeValue quality' w) of
           (Inl e, w') \<Rightarrow> (Inl e, w')
         | (Inr base64Image, w') \<Rightarrow>
             (case atob (js_toString base64Image) of
                None \<Rightarrow> (Inl InvalidCharacterError, w')
              | Some binaryString \<Rightarrow>
                  (Inr (Blob (binaryToBytes binaryString) ''image/png''), w')))"

section \<open>The local pipeline and the brokered call\<close>

text \<open>
  The local branch of \<open>QuickbrushDialog._updateObject\<close>, from the construction of the client
  to the image blob: the generator for the chosen type, the description step with
  \<open>formData.prompt || null\<close>, and the image step. Its result is the blob with the refined
  description.
\<close>

definition localBYOK_pipeline ::
  "network \<Rightarrow> string \<Rightarrow> string \<Rightarrow> string \<Rightarrow> string \<Rightarrow> string list \<Rightarrow> string \<Rightarrow> string \<Rightarrow> string
     \<Rightarrow> world \<Rightarrow> (js_error + blob \<times> string) \<times> world" where
  "localBYOK_pipeline net key generation_type text prompt base64ReferenceImages imageModel
       quality aspect_ratio w =
     (case createGenerator generation_type (OpenAIClient_new key) of
        Inl e \<Rightarrow> (Inl e, w)
      | Inr generator \<Rightarrow>
          (case ImageGenerator_getDescription net generator text
                  (if prompt \<noteq> [] then Some prompt else None) base64ReferenceImages w of
             (Inl e, w1) \<Rightarrow> (Inl e, w1)
           | (Inr refinedDescription, w1) \<Rightarrow>
               (case ImageGenerator_generateImage net generator refinedDescription
                       base64ReferenceImages (Some imageModel) None (Some quality)
                       (Some aspect_ratio) w1 of
                  (Inl e, w2) \<Rightarrow> (Inl e, w2)
                | (Inr imageBlob, w2) \<Rightarrow> (Inr (imageBlob, refinedDescription), w2))))"

definition API_BASE_URL :: string where
  "API_BASE_URL = ''https://wizzlethorpe.com''"

definition generateRequest :: "string \<Rightarrow> jsval \<Rightarrow> request" where
  "generateRequest token params =
     \<lparr>url = API_BASE_URL @ ''/api/generate'', httpMethod = ''POST'',
      headers = [(''Content-Type'', ''application/json''),
                 (''Authorization'', ''Bearer '' @ token)],
      body = JsonBody params\<rparr>"

text \<open>
  \<open>WizzlethorpeAPI.generate\<close>: the body is parsed before the status is looked at; on a
  response that is not ok the field \<open>error\<close> selects the fallback text of the thrown
  \<open>Error\<close>, whose message is \<open>data.message\<close> when that is truthy.
\<close>

definition WizzlethorpeAPI_generate ::
  "network \<Rightarrow> settings \<Rightarrow> jsval \<Rightarrow> world \<Rightarrow> (js_error + jsval) \<times> world" where
  "WizzlethorpeAPI_generate net s params w =
     (case WizzlethorpeAPI_getToken s of
        None \<Rightarrow> (Inl (Error ''No Wizzlethorpe account linked''), w)
      | Some token \<Rightarrow>
          (case fetch net (generateRequest token params) w of
             (FetchRejected, w') \<Rightarrow> (Inl FetchFailed, w')
           | (Response ok statusText parsed, w') \<Rightarrow>
               (case parsed of
                  None \<Rightarrow> (Inl SyntaxError, w')
                | Some data \<Rightarrow>
                    if \<not> ok then
                      (case js_get (Some data) ''error'' of
                         Inl e \<Rightarrow> (Inl e, w')
                       | Inr err \<Rightarrow>
                           if err = Some (JStr ''subscription_required'') then
                             (Inl (Error (js_toString (js_or (get_prop data ''message'')
                                (JStr ''Subscription required for this feature'')))), w')
                           else if err = Some (JStr ''quota_exceeded'') then
                             (Inl (Error (js_toString (js_or (get_prop data ''message'')
                                (JStr ''Weekly quota exceeded'')))), w')
                           else
                             (Inl (Error (js_toString (js_or (get_prop data ''message'')
                                (JStr ''Generation failed'')))), w'))
                    else (Inr data, w'))))"

text \<open>
  The parameters \<open>_updateObject\<close> passes to \<open>WizzlethorpeAPI.generate\<close>: the form
  fields, the reference images and the image model, and the user's key in BYOK mode only.
\<close>

definition generateParams ::
  "string \<Rightarrow> string \<Rightarrow> string \<Rightarrow> string list \<Rightarrow> string \<Rightarrow> string \<Rightarrow> string \<Rightarrow> string option
     \<Rightarrow> jsval" where
  "generateParams generation_type text prompt base64ReferenceImages imageModel quality
       aspect_ratio key =
     JObj ([(''type'', JStr generation_type), (''text'', JStr text), (''prompt'', JStr prompt),
            (''referenceImages'', JArr (map JStr base64ReferenceImages)),
            (''model'', JStr imageModel), (''quality'', JStr quality),
            (''aspectRatio'', JStr aspect_ratio)]
           @ (case key of None \<Rightarrow> [] | Some k \<Rightarrow> [(''apiKey'', JStr k)]))"

section \<open>The reference images of the dialog\<close>

text \<open>
  The callback of the file picker in \<open>_pickReferenceImage\<close> and the removal button
  (\<open>splice(index, 1)\<close>), on the dialog's list of reference images; the picker returns the
  warning it shows when the list is full.
\<close>

definition pickReferenceImage :: "string list \<Rightarrow> string \<Rightarrow> string list \<times> string option" where
  "pickReferenceImage referenceImages path =
     (if length referenceImages < 4 then (referenceImages @ [path], None)
      else (referenceImages, Some ''Maximum 4 reference images allowed''))"

definition removeReferenceImage :: "string list \<Rightarrow> nat \<Rightarrow> string list" where
  "removeReferenceImage referenceImages index =
     take index referenceImages @ drop (Suc index) referenceImages"

datatype dialog_event = Pick string | Remove nat

fun dialog_events :: "string list \<Rightarrow> dialog_event list \<Rightarrow> string list" where
  "dialog_events referenceImages [] = referenceImages"
| "dialog_events referenceImages (Pick path # es) =
     dialog_events (fst (pickReferenceImage referenceImages path)) es"
| "dialog_events referenceImages (Remove index # es) =
     dialog_events (removeReferenceImage referenceImages index) es"

text \<open>Reading the trace: the requests issued between two worlds, and the fields of a request.\<close>

definition issued :: "world \<Rightarrow> world \<Rightarrow> request list" where
  "issued w w' = drop (length (trace w)) (trace w')"

fun textFields :: "form_entry list \<Rightarrow> (string \<times> string) list" where
  "textFields [] = []"
| "textFields (TextField n v # es) = (n, v) # textFields es"
| "textFields (FileField n b f # es) = textFields es"
| "textFields (FunctionSourceField n f # es) = textFields es"

definition request_size :: "request \<Rightarrow> string option" where
  "request_size r =
     (case body r of
        JsonBody v \<Rightarrow> (case get_prop v ''size'' of Some (JStr s) \<Rightarrow> Some s | _ \<Rightarrow> None)
      | FormDataBody es \<Rightarrow> map_of (textFields es) ''size'')"

definition is_synthesis_request :: "OpenAIClient \<Rightarrow> request \<Rightarrow> bool" where
  "is_synthesis_request c r =
     (url r = baseUrl c @ ''/images/generations'' \<or> url r = baseUrl c @ ''/images/edits'')"

section \<open>Test doubles\<close>

text \<open>
  Replies of the two services as the source expects them: a chat completion whose first
  choice carries the given content, an image response carrying the given base64 payload,
  and an error reply of the Wizzlethorpe API with its discriminant and message.
\<close>

definition chat_reply :: "string \<Rightarrow> response" where
  "chat_reply content =
     Response True ''OK''
       (Some (JObj [(''choices'', JArr [JObj [(''message'', JObj [(''content'', JStr content)])]])]))"

definition image_reply :: "string \<Rightarrow> response" where
  "image_reply b64 =
     Response True ''OK'' (Some (JObj [(''data'', JArr [JObj [(''b64_json'', JStr b64)]])]))"

definition broker_error :: "string \<Rightarrow> string \<Rightarrow> response" where
  "broker_error code message =
     Response False ''Forbidden''
       (Some (JObj [(''error'', JStr code), (''message'', JStr message)]))"

section \<open>Auxiliary facts\<close>

lemmas resolver_defs =
  resolve_def shouldUseAPI_def shouldUseBYOKAPI_def shouldUseLocalBYOK_def
  WizzlethorpeAPI_isLinked_def WizzlethorpeAPI_canUseServerGeneration_def
  WizzlethorpeAPI_getLinkedAccount_def

lemma chatCompletion_eq:
  "OpenAIClient_chatCompletion net c params w =
     (openaiResponse (net (trace w) (jsonRequest c ''/chat/completions'' params)),
      w\<lparr>trace := trace w @ [jsonRequest c ''/chat/completions'' params]\<rparr>)"
  by (simp add: OpenAIClient_chatCompletion_def fetch_def)

lemma imageGeneration_eq:
  "OpenAIClient_imageGeneration net c params w =
     (openaiResponse (net (trace w) (jsonRequest c ''/images/generations'' params)),
      w\<lparr>trace := trace w @ [jsonRequest c ''/images/generations'' params]\<rparr>)"
  by (simp add: OpenAIClient_imageGeneration_def fetch_def)

lemma issued_append [simp]: "issued w (w'\<lparr>trace := trace w @ rs\<rparr>) = rs"
  by (simp add: issued_def)

lemma withDefault_Some: "withDefault d (Some x) = x"
  by (simp add: withDefault_def)

lemma withDefault_None: "withDefault d None = d"
  by (simp add: withDefault_def)

lemma referenceBlob_png: "referenceBlob b = Inr bl \<Longrightarrow> mimeType bl = ''image/png''"
  by (auto simp: referenceBlob_def Let_def split: option.splits)

lemma referenceParts_shape:
  "referenceParts i refs = Inr parts \<Longrightarrow>
     length parts = length refs
     \<and> (\<forall>e \<in> set parts. \<exists>b f. e = FileField ''image'' b f \<and> mimeType b = ''image/png'')"
proof (induction refs arbitrary: i parts)
  case Nil
  then show ?case by simp
next
  case (Cons r refs)
  from Cons.prems obtain b ps where
    b: "referenceBlob r = Inr b" and ps: "referenceParts (Suc i) refs = Inr ps"
    and parts: "parts = FileField ''image'' b (''reference_'' @ show_nat i @ ''.png'') # ps"
    by (auto split: sum.splits)
  from Cons.IH [OF ps] referenceBlob_png [OF b] parts show ?case
    by simp
qed

lemma imageEdit_trace:
  "trace (snd (OpenAIClient_imageEdit net c p refs m s q b w)) =
     trace w @ (case referenceParts 0 refs of
                  Inl e \<Rightarrow> []
                | Inr parts \<Rightarrow> [editRequest c (editFields m p s q b @ parts)])"
  by (simp add: OpenAIClient_imageEdit_def fetch_def split: sum.splits prod.splits)

lemma generateImage_trace:
  "trace (snd (OpenAIClient_generateImage net c p refs model sz quality background w)) =
     trace w @
     (if refs \<noteq> [] then
        (case referenceParts 0 refs of
           Inl e \<Rightarrow> []
         | Inr parts \<Rightarrow>
             [editRequest c
                (editFields (withDefault ''gpt-image-1-mini'' model) p
                   (withDefault ''1024x1024'' sz) (withDefault ''medium'' quality)
                   (withDefault ''transparent'' background) @ parts)])
      else [jsonRequest c ''/images/generations''
              (generationParams (withDefault ''gpt-image-1-mini'' model) p
                 (withDefault ''1024x1024'' sz) (withDefault ''medium'' quality)
                 (withDefault ''transparent'' background))])"
  by (simp add: OpenAIClient_generateImage_def Let_def imageEdit_trace imageGeneration_eq
      split: sum.splits prod.splits)

lemma ImageGenerator_generateImage_trace:
  "mapAspectRatioToSize (withDefault ''square'' aspect) = SizeString s \<Longrightarrow>
   trace (snd (ImageGenerator_generateImage net g d refs model isz quality aspect w)) =
     trace (snd (OpenAIClient_generateImage net (client g) (getPrompt (kind g) d) refs
        (Some (withDefault ''gpt-image-1-mini'' model)) (Some s)
        (Some (withDefault ''medium'' quality)) None w))"
  by (simp add: ImageGenerator_generateImage_def Let_def split: sum.splits prod.splits option.splits)

lemma generateImage_inherited_string:
  "OpenAIClient_generateImage_inherited net c p refs m (SizeString s) q w =
     OpenAIClient_generateImage net c p refs (Some m) (Some s) (Some q) None w"
proof -
  have e: "sizeEntry (SizeString s) = TextField ''size'' s"
    by (simp add: sizeEntry_def)
  have j: "sizeProperty (SizeString s) = [(''size'', JStr s)]"
    by (simp add: sizeProperty_def)
  show ?thesis
    unfolding OpenAIClient_generateImage_inherited_def OpenAIClient_generateImage_def
      OpenAIClient_imageEdit_def Let_def withDefault_Some withDefault_None e j
      editFields_def generationParams_def
    by simp
qed

lemma generateImage_inherited_world:
  "\<exists>rs. snd (OpenAIClient_generateImage_inherited net c p refs m v q w) =
          w\<lparr>trace := trace w @ rs\<rparr>"
proof (cases "refs \<noteq> [] \<and> (\<exists>e. referenceParts 0 refs = Inl e)")
  case True
  then have "snd (OpenAIClient_generateImage_inherited net c p refs m v q w) =
      w\<lparr>trace := trace w @ []\<rparr>"
    by (auto simp: OpenAIClient_generateImage_inherited_def)
  then show ?thesis by blast
next
  case False
  then show ?thesis
    by (auto simp: OpenAIClient_generateImage_inherited_def imageGeneration_eq fetch_def
        split: sum.splits prod.splits)
qed

lemma generateImage_world:
  "\<exists>rs. snd (OpenAIClient_generateImage net c p refs model sz quality background w) =
          w\<lparr>trace := trace w @ rs\<rparr>"
proof (cases "refs \<noteq> [] \<and> (\<exists>e. referenceParts 0 refs = Inl e)")
  case True
  then have "snd (OpenAIClient_generateImage net c p refs model sz quality background w) =
      w\<lparr>trace := trace w @ []\<rparr>"
    by (auto simp: OpenAIClient_generateImage_def OpenAIClient_imageEdit_def Let_def)
  then show ?thesis by blast
next
  case False
  then show ?thesis
    by (auto simp: OpenAIClient_generateImage_def OpenAIClient_imageEdit_def Let_def
        imageGeneration_eq fetch_def split: sum.splits prod.splits)
qed

lemma ImageGenerator_generateImage_world:
  "\<exists>rs. snd (ImageGenerator_generateImage net g d refs model isz quality aspect w) =
          w\<lparr>trace := trace w @ rs\<rparr>"
proof -
  let ?m = "withDefault ''gpt-image-1-mini'' model"
  let ?q = "withDefault ''medium'' quality"
  let ?v = "mapAspectRatioToSize (withDefault ''square'' aspect)"
  have "snd (ImageGenerator_generateImage net g d refs model isz quality aspect w) =
      snd (case ?v of
             SizeString s \<Rightarrow>
               OpenAIClient_generateImage net (client g) (getPrompt (kind g) d) refs
                 (Some ?m) (Some s) (Some ?q) None w
           | InheritedFunction f \<Rightarrow>
               OpenAIClient_generateImage_inherited net (client g) (getPrompt (kind g) d) refs
                 ?m ?v ?q w
           | ObjectPrototype \<Rightarrow>
               OpenAIClient_generateImage_inherited net (client g) (getPrompt (kind g) d) refs
                 ?m ?v ?q w)"
    by (simp add: ImageGenerator_generateImage_def Let_def
        split: sum.splits prod.splits option.splits)
  then show ?thesis
    using generateImage_world generateImage_inherited_world
    by (cases ?v) simp_all
qed

lemma request_size_edit:
  "request_size (editRequest c (editFields m p s q b @ parts)) = Some s"
  by (simp add: request_size_def editRequest_def editFields_def)

lemma request_size_generation:
  "request_size (jsonRequest c path (generationParams m p s q b)) = Some s"
  by (simp add: request_size_def jsonRequest_def generationParams_def)

lemma atob_hi: "atob ''aGk='' = Some ''hi''"
  by code_simp

lemma describeReferenceImages_trace:
  "trace (snd (describeReferenceImages net c refs w)) =
     trace w @ (if refs \<noteq> [] then [jsonRequest c ''/chat/completions'' (referenceImagesParams refs)]
                else [])"
  by (simp add: describeReferenceImages_def referenceImagesChat_def chatCompletion_eq
      split: sum.splits prod.splits)

lemma referenceImagesChat_world:
  "snd (referenceImagesChat net c refs w) =
     w\<lparr>trace := trace w @ [jsonRequest c ''/chat/completions'' (referenceImagesParams refs)]\<rparr>"
  by (simp add: referenceImagesChat_def chatCompletion_eq split: sum.splits)

lemma refineDescription_eq:
  "refineDescription net c sys text img ctx w =
     ((case openaiResponse (net (trace w)
               (jsonRequest c ''/chat/completions'' (refineParams sys text img ctx))) of
         Inl e \<Rightarrow> Inl e
       | Inr response \<Rightarrow> parseDescription response),
      w\<lparr>trace := trace w @ [jsonRequest c ''/chat/completions'' (refineParams sys text img ctx)]\<rparr>)"
  by (simp add: refineDescription_def chatCompletion_eq split: sum.splits)

lemma js_get_Some_truthy: "js_get v k = Inr (Some x) \<Longrightarrow> truthy v"
proof (cases v)
  case None
  then show "js_get v k = Inr (Some x) \<Longrightarrow> truthy v" by (simp add: js_get_def)
next
  case (Some y)
  then show "js_get v k = Inr (Some x) \<Longrightarrow> truthy v"
    by (cases y) (auto simp: js_get_def truthy_def split: if_splits list.splits)
qed

lemma js_path_content:
  assumes "js_path (Some response) [''choices'', ''0'', ''message'', ''content''] = Inr (Some x)"
  obtains choices choice where
    "js_get (Some response) ''choices'' = Inr choices" "truthy choices"
    "js_get choices ''0'' = Inr choice" "truthy choice"
    "js_path choice [''message'', ''content''] = Inr (Some x)"
proof -
  from assms obtain choices choice message where
    1: "js_get (Some response) ''choices'' = Inr choices"
    and 2: "js_get choices ''0'' = Inr choice"
    and 3: "js_get choice ''message'' = Inr message"
    and 4: "js_get message ''content'' = Inr (Some x)"
    by (auto split: sum.splits)
  from 4 have "truthy message" by (rule js_get_Some_truthy)
  then obtain m where m: "message = Some m" by (cases message) (auto simp: truthy_def)
  from 3 m have tc: "truthy choice" by (auto intro: js_get_Some_truthy)
  then obtain c0 where c0: "choice = Some c0" by (cases choice) (auto simp: truthy_def)
  from 2 c0 have tcs: "truthy choices" by (auto intro: js_get_Some_truthy)
  from 3 4 have "js_path choice [''message'', ''content''] = Inr (Some x)" by simp
  with 1 2 tc tcs that show thesis by blast
qed

lemma parseDescription_string:
  assumes "js_path (Some response) [''choices'', ''0'', ''message'', ''content''] = Inr (Some (JStr s))"
  shows "parseDescription response =
           (if js_trim s = [] then Inl (Error ''Parsed description is empty.'')
            else Inr (js_trim s))"
proof -
  from assms obtain choices choice where
    1: "js_get (Some response) ''choices'' = Inr choices" "truthy choices"
    "js_get choices ''0'' = Inr choice" "truthy choice"
    "js_path choice [''message'', ''content''] = Inr (Some (JStr s))"
    by (rule js_path_content)
  have "js_or (Some (JStr s)) (JStr []) = JStr s"
    by (simp add: js_or_def truthy_def)
  with 1 show ?thesis
    unfolding parseDescription_def by (simp add: Let_def del: js_path.simps)
qed

lemma is_synthesis_chat [simp]:
  "\<not> is_synthesis_request c (jsonRequest c ''/chat/completions'' params)"
  by (simp add: is_synthesis_request_def jsonRequest_def)

lemma console_refineDescription:
  "console (snd (refineDescription net c sys text img ctx w)) = console w"
  by (simp add: refineDescription_eq)

lemma console_ImageGenerator_generateImage:
  "console (snd (ImageGenerator_generateImage net g d refs model isz quality aspect w)) = console w"
proof -
  from ImageGenerator_generateImage_world obtain rs where
    "snd (ImageGenerator_generateImage net g d refs model isz quality aspect w) =
       w\<lparr>trace := trace w @ rs\<rparr>"
    by blast
  then show ?thesis by simp
qed

lemma referenceParts_one:
  "referenceParts 0 [''data:image/png;base64,aGk=''] =
     Inr [FileField ''image'' (Blob [104, 105] ''image/png'') ''reference_0.png'']"
  by code_simp

lemma referenceParts_two:
  "referenceParts 0 [''data:image/png;base64,aGk='', ''aGVsbG8=''] =
     Inr [FileField ''image'' (Blob [104, 105] ''image/png'') ''reference_0.png'',
          FileField ''image'' (Blob [104, 101, 108, 108, 111] ''image/png'') ''reference_1.png'']"
  by code_simp

lemma bytes_hi: "binaryToBytes ''hi'' = [104, 105]"
  by code_simp

lemma trim_elf: "js_trim '' a tall elf '' = ''a tall elf''"
  by code_simp

lemma referenceParts_five:
  "referenceParts 0 [''data:image/png;base64,aGk='', ''data:image/png;base64,aGk='',
           ''data:image/png;base64,aGk='', ''data:image/png;base64,aGk='',
           ''data:image/png;base64,aGk=''] =
     Inr [FileField ''image'' (Blob [104, 105] ''image/png'') ''reference_0.png'',
          FileField ''image'' (Blob [104, 105] ''image/png'') ''reference_1.png'',
          FileField ''image'' (Blob [104, 105] ''image/png'') ''reference_2.png'',
          FileField ''image'' (Blob [104, 105] ''image/png'') ''reference_3.png'',
          FileField ''image'' (Blob [104, 105] ''image/png'') ''reference_4.png'']"
  by code_simp

lemma parseDescription_chat_reply:
  "parseDescription (JObj [(''choices'',
      JArr [JObj [(''message'', JObj [(''content'', JStr '' a tall elf '')])]])])
   = Inr ''a tall elf''"
  by (subst parseDescription_string [where s = "'' a tall elf ''"])
    (simp_all add: js_get_def trim_elf)

lemma pipeline_first_request:
  assumes ne: "referenceImages \<noteq> []"
    and g: "createGenerator generation_type (OpenAIClient_new key) = Inr g"
  shows "\<exists>rest. issued w (snd (localBYOK_pipeline net key generation_type text prompt
            referenceImages imageModel quality aspect_ratio w)) =
          jsonRequest (OpenAIClient_new key) ''/chat/completions''
            (referenceImagesParams referenceImages) # rest"
proof -
  let ?c = "OpenAIClient_new key"
  let ?r1 = "jsonRequest ?c ''/chat/completions'' (referenceImagesParams referenceImages)"
  define ctx where "ctx = (if prompt \<noteq> [] then prompt else getDefaultContextPrompt (kind g))"
  define d where "d = describeReferenceImages net ?c referenceImages w"
  let ?r2 = "jsonRequest ?c ''/chat/completions''
               (refineParams (getSystemPrompt (kind g)) text (fst d) ctx)"
  obtain res w2 where
    r: "refineDescription net ?c (getSystemPrompt (kind g)) text (fst d) ctx (snd d) = (res, w2)"
    by (cases "refineDescription net ?c (getSystemPrompt (kind g)) text (fst d) ctx (snd d)")
  have cg: "client g = ?c"
    using g by (auto simp: createGenerator_def split: if_splits)
  have t1: "trace (snd d) = trace w @ [?r1]"
    unfolding d_def using ne by (simp add: describeReferenceImages_trace)
  from r have "w2 = snd (refineDescription net ?c (getSystemPrompt (kind g)) text (fst d) ctx
      (snd d))"
    by simp
  then have t2: "trace w2 = trace w @ [?r1, ?r2]"
    using t1 by (simp add: refineDescription_eq)
  have "ImageGenerator_getDescription net g text
              (if prompt \<noteq> [] then Some prompt else None) referenceImages w =
        refineDescription net ?c (getSystemPrompt (kind g)) text (fst d) ctx (snd d)"
    unfolding ctx_def d_def using cg
    by (cases "prompt = []")
      (simp_all add: ImageGenerator_getDescription_def OpenAIClient_generateDescription_def
        split: prod.splits)
  with r have gd: "ImageGenerator_getDescription net g text
              (if prompt \<noteq> [] then Some prompt else None) referenceImages w = (res, w2)"
    by simp
  show ?thesis
  proof (cases res)
    case (Inl e)
    then have "snd (localBYOK_pipeline net key generation_type text prompt
            referenceImages imageModel quality aspect_ratio w) = w2"
      unfolding localBYOK_pipeline_def using g gd by simp
    then show ?thesis using t2 by (simp add: issued_def)
  next
    case (Inr refinedDescription)
    from ImageGenerator_generateImage_world obtain rs where
      w3: "snd (ImageGenerator_generateImage net g refinedDescription referenceImages
             (Some imageModel) None (Some quality) (Some aspect_ratio) w2) =
           w2\<lparr>trace := trace w2 @ rs\<rparr>"
      by blast
    have "snd (localBYOK_pipeline net key generation_type text prompt
            referenceImages imageModel quality aspect_ratio w) =
          snd (ImageGenerator_generateImage net g refinedDescription referenceImages
             (Some imageModel) None (Some quality) (Some aspect_ratio) w2)"
      unfolding localBYOK_pipeline_def using g gd Inr
      by (simp split: sum.splits prod.splits)
    with w3 show ?thesis using t2 by (simp add: issued_def)
  qed
qed

lemma dialog_events_cap:
  "length referenceImages \<le> 4 \<Longrightarrow> length (dialog_events referenceImages es) \<le> 4"
proof (induction es arbitrary: referenceImages)
  case Nil
  then show ?case by simp
next
  case (Cons e es)
  show ?case
  proof (cases e)
    case (Pick path)
    have "length (fst (pickReferenceImage referenceImages path)) \<le> 4"
      using Cons.prems by (simp add: pickReferenceImage_def)
    with Cons.IH Pick show ?thesis by simp
  next
    case (Remove index)
    have "length (removeReferenceImage referenceImages index) \<le> 4"
      using Cons.prems by (simp add: removeReferenceImage_def)
    with Cons.IH Remove show ?thesis by simp
  qed
qed

section \<open>The claims\<close>

text \<open>
  Claim C1. The resolver returns ServerPooled for a linked account of tier at least 500
  cents with server mode preferred; ServerBrokeredBYOK for a linked account of tier 0 with a
  local key; LocalDirectBYOK for no linked account and a local key; and the unconfigured
  state for no linked account and no local key. An account is linked when the token is not
  empty, a key is present when \<open>openaiApiKey\<close> is not empty.
\<close>

theorem resolve_cases:
  "(wizzlethorpeToken s \<noteq> [] \<and> wizzlethorpeAccount s = Some a \<and> tierCents a \<ge> 500
      \<and> useServerMode s \<longrightarrow> resolve s = Strategy ServerPooled)
   \<and> (wizzlethorpeToken s \<noteq> [] \<and> wizzlethorpeAccount s = Some a \<and> tierCents a = 0
      \<and> openaiApiKey s \<noteq> [] \<longrightarrow> resolve s = Strategy ServerBrokeredBYOK)
   \<and> (wizzlethorpeToken s = [] \<and> openaiApiKey s \<noteq> [] \<longrightarrow> resolve s = Strategy LocalDirectBYOK)
   \<and> (wizzlethorpeToken s = [] \<and> openaiApiKey s = [] \<longrightarrow>
        resolve s = Unconfigured (Some msg_no_account_no_key))"
  by (simp add: resolver_defs)

theorem resolve_cases_witness:
  "resolve \<lparr>wizzlethorpeToken = ''tok'',
      wizzlethorpeAccount = Some \<lparr>name = ''Ada'', tierName = ''Alchemist'', tierCents = 500\<rparr>,
      openaiApiKey = [], useServerMode = True\<rparr> = Strategy ServerPooled
   \<and> resolve \<lparr>wizzlethorpeToken = ''tok'',
      wizzlethorpeAccount = Some \<lparr>name = ''Ada'', tierName = ''Free'', tierCents = 0\<rparr>,
      openaiApiKey = ''x'', useServerMode = True\<rparr> = Strategy ServerBrokeredBYOK
   \<and> resolve \<lparr>wizzlethorpeToken = [], wizzlethorpeAccount = None,
      openaiApiKey = ''x'', useServerMode = True\<rparr> = Strategy LocalDirectBYOK
   \<and> resolve \<lparr>wizzlethorpeToken = [], wizzlethorpeAccount = None,
      openaiApiKey = [], useServerMode = True\<rparr> = Unconfigured (Some msg_no_account_no_key)"
  using
    resolve_cases [of "\<lparr>wizzlethorpeToken = ''tok'',
      wizzlethorpeAccount = Some \<lparr>name = ''Ada'', tierName = ''Alchemist'', tierCents = 500\<rparr>,
      openaiApiKey = [], useServerMode = True\<rparr>"
      "\<lparr>name = ''Ada'', tierName = ''Alchemist'', tierCents = 500\<rparr>"]
    resolve_cases [of "\<lparr>wizzlethorpeToken = ''tok'',
      wizzlethorpeAccount = Some \<lparr>name = ''Ada'', tierName = ''Free'', tierCents = 0\<rparr>,
      openaiApiKey = ''x'', useServerMode = True\<rparr>"
      "\<lparr>name = ''Ada'', tierName = ''Free'', tierCents = 0\<rparr>"]
    resolve_cases [of "\<lparr>wizzlethorpeToken = [], wizzlethorpeAccount = None,
      openaiApiKey = ''x'', useServerMode = True\<rparr>"]
    resolve_cases [of "\<lparr>wizzlethorpeToken = [], wizzlethorpeAccount = None,
      openaiApiKey = [], useServerMode = True\<rparr>"]
  by simp

text \<open>
  Claim C2 says that every settings snapshot to which no strategy applies gets exactly
  one of the two error reports. The source reports nothing for a linked account that may
  use server generation, with server mode switched off and no local key: none of the three
  conditions holds, neither branch of the \<open>if\<close>/\<open>else if\<close> applies, and \<open>_updateObject\<close>
  returns silently, although the comment above the conditions reads
  "4. Otherwise -> error".
\<close>

theorem resolve_silent_without_report:
  "\<not> shouldUseAPI \<lparr>wizzlethorpeToken = ''tok'',
      wizzlethorpeAccount = Some \<lparr>name = ''Ada'', tierName = ''Alchemist'', tierCents = 500\<rparr>,
      openaiApiKey = [], useServerMode = False\<rparr>
   \<and> \<not> shouldUseBYOKAPI \<lparr>wizzlethorpeToken = ''tok'',
      wizzlethorpeAccount = Some \<lparr>name = ''Ada'', tierName = ''Alchemist'', tierCents = 500\<rparr>,
      openaiApiKey = [], useServerMode = False\<rparr>
   \<and> \<not> shouldUseLocalBYOK \<lparr>wizzlethorpeToken = ''tok'',
      wizzlethorpeAccount = Some \<lparr>name = ''Ada'', tierName = ''Alchemist'', tierCents = 500\<rparr>,
      openaiApiKey = [], useServerMode = False\<rparr>
   \<and> resolve \<lparr>wizzlethorpeToken = ''tok'',
      wizzlethorpeAccount = Some \<lparr>name = ''Ada'', tierName = ''Alchemist'', tierCents = 500\<rparr>,
      openaiApiKey = [], useServerMode = False\<rparr> = Unconfigured None"
  by (simp add: resolver_defs)

text \<open>
  Claim C3 says that a request with more than four reference images is rejected before
  any network call. The pipeline never looks at the number of reference images: with five
  of them the local pipeline issues both describe calls and the edit call and returns an
  image.
\<close>

theorem five_reference_images_not_rejected:
  "length [''data:image/png;base64,aGk='', ''data:image/png;base64,aGk='',
           ''data:image/png;base64,aGk='', ''data:image/png;base64,aGk='',
           ''data:image/png;base64,aGk=''] = 5
   \<and> fst (localBYOK_pipeline
          (scripted_network [chat_reply ''an elf'', chat_reply '' a tall elf '',
             image_reply ''aGk=''])
          ''sk'' ''character'' ''An elven ranger'' []
          [''data:image/png;base64,aGk='', ''data:image/png;base64,aGk='',
           ''data:image/png;base64,aGk='', ''data:image/png;base64,aGk='',
           ''data:image/png;base64,aGk='']
          ''gpt-image-1-mini'' ''high'' ''square'' initial_world)
     = Inr (Blob [104, 105] ''image/png'', ''a tall elf'')
   \<and> map url (issued initial_world (snd (localBYOK_pipeline
          (scripted_network [chat_reply ''an elf'', chat_reply '' a tall elf '',
             image_reply ''aGk=''])
          ''sk'' ''character'' ''An elven ranger'' []
          [''data:image/png;base64,aGk='', ''data:image/png;base64,aGk='',
           ''data:image/png;base64,aGk='', ''data:image/png;base64,aGk='',
           ''data:image/png;base64,aGk='']
          ''gpt-image-1-mini'' ''high'' ''square'' initial_world)))
     = [''https://api.openai.com/v1/chat/completions'',
        ''https://api.openai.com/v1/chat/completions'',
        ''https://api.openai.com/v1/images/edits'']"
  by (simp add: localBYOK_pipeline_def createGenerator_def ImageGenerator_getDescription_def
      OpenAIClient_generateDescription_def describeReferenceImages_def
      referenceImagesChat_def chatCompletion_eq refineDescription_eq
      ImageGenerator_generateImage_def OpenAIClient_generateImage_def
      OpenAIClient_imageEdit_def Let_def referenceParts_five fetch_def scripted_network_def
      initial_world_def chat_reply_def image_reply_def openaiResponse_def imageData_def
      js_get_def js_or_def truthy_def parseDescription_chat_reply atob_hi bytes_hi
      withDefault_Some withDefault_None issued_def jsonRequest_def editRequest_def
      OpenAIClient_new_def mapAspectRatioToSize_def sizeMap_def
      del: referenceParts.simps)

text \<open>
  Claim C3, as the source has it: the cap is kept where the dialog collects the images.
  The picker appends an image only while the list holds fewer than four, and otherwise
  leaves the list as it is and warns; so a list of at most four images stays at most four
  under any sequence of picks and removals. The pipeline does not reject a request that
  carries more than four reference images before the network: for every such request with
  a known generation type, the first thing the local pipeline does is to issue the describe
  call for these reference images.
\<close>

theorem reference_image_cap_at_picker:
  "(length referenceImages < 4 \<longrightarrow>
      pickReferenceImage referenceImages path = (referenceImages @ [path], None))
   \<and> (4 \<le> length referenceImages \<longrightarrow>
      pickReferenceImage referenceImages path =
        (referenceImages, Some ''Maximum 4 reference images allowed''))
   \<and> (length referenceImages \<le> 4 \<longrightarrow> length (dialog_events referenceImages es) \<le> 4)
   \<and> (4 < length referenceImages
        \<and> createGenerator generation_type (OpenAIClient_new key) = Inr g \<longrightarrow>
      take 1 (issued w (snd (localBYOK_pipeline net key generation_type text prompt
         referenceImages imageModel quality aspect_ratio w))) =
        [jsonRequest (OpenAIClient_new key) ''/chat/completions''
           (referenceImagesParams referenceImages)])"
proof -
  have picker: "(length referenceImages < 4 \<longrightarrow>
      pickReferenceImage referenceImages path = (referenceImages @ [path], None))
   \<and> (4 \<le> length referenceImages \<longrightarrow>
      pickReferenceImage referenceImages path =
        (referenceImages, Some ''Maximum 4 reference images allowed''))
   \<and> (length referenceImages \<le> 4 \<longrightarrow> length (dialog_events referenceImages es) \<le> 4)"
    by (simp add: pickReferenceImage_def dialog_events_cap)
  have first: "take 1 (issued w (snd (localBYOK_pipeline net key generation_type text prompt
         referenceImages imageModel quality aspect_ratio w))) =
        [jsonRequest (OpenAIClient_new key) ''/chat/completions''
           (referenceImagesParams referenceImages)]"
    if len: "4 < length referenceImages"
      and g: "createGenerator generation_type (OpenAIClient_new key) = Inr g"
  proof -
    from len have ne: "referenceImages \<noteq> []" by auto
    from pipeline_first_request [OF ne g] obtain rest where
      "issued w (snd (localBYOK_pipeline net key generation_type text prompt
         referenceImages imageModel quality aspect_ratio w)) =
        jsonRequest (OpenAIClient_new key) ''/chat/completions''
           (referenceImagesParams referenceImages) # rest"
      by blast
    then show ?thesis by simp
  qed
  from picker first show ?thesis by blast
qed

theorem reference_image_cap_at_picker_witness:
  "pickReferenceImage [''a.png'', ''b.png'', ''c.png'', ''d.png''] ''e.png'' =
     ([''a.png'', ''b.png'', ''c.png'', ''d.png''], Some ''Maximum 4 reference images allowed'')
   \<and> pickReferenceImage [''a.png''] ''b.png'' = ([''a.png'', ''b.png''], None)
   \<and> length (dialog_events [''a.png'', ''b.png'', ''c.png'']
         [Pick ''d.png'', Pick ''e.png'', Remove 0, Pick ''f.png'', Pick ''g.png'']) \<le> 4
   \<and> take 1 (issued initial_world (snd (localBYOK_pipeline (scripted_network [])
         ''sk'' ''creature'' ''A marsh troll'' []
         [''data:image/png;base64,aGk='', ''data:image/png;base64,aGk='',
           ''data:image/png;base64,aGk='', ''data:image/png;base64,aGk='',
           ''data:image/png;base64,aGk='']
         ''gpt-image-1-mini'' ''high'' ''square'' initial_world))) =
       [jsonRequest (OpenAIClient_new ''sk'') ''/chat/completions''
          (referenceImagesParams
             [''data:image/png;base64,aGk='', ''data:image/png;base64,aGk='',
           ''data:image/png;base64,aGk='', ''data:image/png;base64,aGk='',
           ''data:image/png;base64,aGk=''])]"
proof -
  let ?g = "\<lparr>kind = Creature, client = OpenAIClient_new ''sk'',
             defaultImageSize = ''1024x1024''\<rparr>"
  have g: "createGenerator ''creature'' (OpenAIClient_new ''sk'') = Inr ?g"
    by (simp add: createGenerator_def)
  from g
    reference_image_cap_at_picker [of "[''a.png'', ''b.png'', ''c.png'', ''d.png'']" "''e.png''"
      "[]" "''creature''" "''sk''" ?g]
    reference_image_cap_at_picker [of "[''a.png'']" "''b.png''" "[]" "''creature''" "''sk''" ?g]
    reference_image_cap_at_picker [of "[''a.png'', ''b.png'', ''c.png'']" "''z.png''"
      "[Pick ''d.png'', Pick ''e.png'', Remove 0, Pick ''f.png'', Pick ''g.png'']"
      "''creature''" "''sk''" ?g]
    reference_image_cap_at_picker [of
      "[''data:image/png;base64,aGk='', ''data:image/png;base64,aGk='',
           ''data:image/png;base64,aGk='', ''data:image/png;base64,aGk='',
           ''data:image/png;base64,aGk='']" "''p.png''" "[]" "''creature''" "''sk''" ?g
      initial_world "scripted_network []" "''A marsh troll''" "[]" "''gpt-image-1-mini''"
      "''high''" "''square''"]
  show ?thesis
    by simp
qed

text \<open>
  Claim C4. When the refinement call answers with a content string that is blank after
  trimming, the local pipeline fails with the error \<open>Parsed description is empty.\<close> (the
  spec's EmptyDescriptionError) and issues no request to either image endpoint.
\<close>

theorem blank_description_aborts:
  assumes g: "createGenerator generation_type (OpenAIClient_new key) = Inr g"
    and d: "describeReferenceImages net (client g) referenceImages w = (imageDescription, w1)"
    and r: "net (trace w1) (jsonRequest (client g) ''/chat/completions''
              (refineParams (getSystemPrompt (kind g)) text imageDescription
                 (if prompt \<noteq> [] then prompt else getDefaultContextPrompt (kind g))))
            = Response True statusText (Some response)"
    and c: "js_path (Some response) [''choices'', ''0'', ''message'', ''content'']
            = Inr (Some (JStr s))"
    and b: "js_trim s = []"
  shows "fst (localBYOK_pipeline net key generation_type text prompt referenceImages imageModel
            quality aspect_ratio w) = Inl (Error ''Parsed description is empty.'')
     \<and> filter (is_synthesis_request (client g))
          (issued w (snd (localBYOK_pipeline net key generation_type text prompt
             referenceImages imageModel quality aspect_ratio w))) = []"
proof -
  let ?ctx = "if prompt \<noteq> [] then prompt else getDefaultContextPrompt (kind g)"
  let ?req = "jsonRequest (client g) ''/chat/completions''
                (refineParams (getSystemPrompt (kind g)) text imageDescription ?ctx)"
  have p: "parseDescription response = Inl (Error ''Parsed description is empty.'')"
    using parseDescription_string [OF c] b by simp
  have ref: "refineDescription net (client g) (getSystemPrompt (kind g)) text imageDescription
               ?ctx w1 = (Inl (Error ''Parsed description is empty.''),
                          w1\<lparr>trace := trace w1 @ [?req]\<rparr>)"
    unfolding refineDescription_eq using r p by (simp add: openaiResponse_def)
  have gd: "ImageGenerator_getDescription net g text (if prompt \<noteq> [] then Some prompt else None)
              referenceImages w
            = (Inl (Error ''Parsed description is empty.''), w1\<lparr>trace := trace w1 @ [?req]\<rparr>)"
    using d ref
    by (cases "prompt = []")
      (simp_all add: ImageGenerator_getDescription_def OpenAIClient_generateDescription_def)
  have pl: "localBYOK_pipeline net key generation_type text prompt referenceImages imageModel
            quality aspect_ratio w
            = (Inl (Error ''Parsed description is empty.''), w1\<lparr>trace := trace w1 @ [?req]\<rparr>)"
    unfolding localBYOK_pipeline_def using g gd by simp
  have tw1: "trace w1 = trace w @
      (if referenceImages \<noteq> []
       then [jsonRequest (client g) ''/chat/completions'' (referenceImagesParams referenceImages)]
       else [])"
    using describeReferenceImages_trace [of net "client g" referenceImages w] d by simp
  show ?thesis
    unfolding pl by (simp add: issued_def tw1)
qed

theorem blank_description_aborts_witness:
  "fst (localBYOK_pipeline (scripted_network [chat_reply ''   ''])
          ''sk'' ''character'' ''An elven ranger'' [] [] ''gpt-image-1-mini'' ''high'' ''square''
          initial_world) = Inl (Error ''Parsed description is empty.'')
   \<and> filter (is_synthesis_request (OpenAIClient_new ''sk''))
        (issued initial_world (snd (localBYOK_pipeline (scripted_network [chat_reply ''   ''])
          ''sk'' ''character'' ''An elven ranger'' [] [] ''gpt-image-1-mini'' ''high'' ''square''
          initial_world))) = []"
proof -
  let ?g = "\<lparr>kind = Character, client = OpenAIClient_new ''sk'',
             defaultImageSize = ''1024x1024''\<rparr>"
  have g: "createGenerator ''character'' (OpenAIClient_new ''sk'') = Inr ?g"
    by (simp add: createGenerator_def)
  have d: "describeReferenceImages (scripted_network [chat_reply ''   '']) (client ?g) []
             initial_world = (JStr noReferenceImages, initial_world)"
    by (simp add: describeReferenceImages_def)
  have r: "scripted_network [chat_reply ''   ''] (trace initial_world)
             (jsonRequest (client ?g) ''/chat/completions''
                (refineParams (getSystemPrompt (kind ?g)) ''An elven ranger''
                   (JStr noReferenceImages)
                   (if [] \<noteq> [] then [] else getDefaultContextPrompt (kind ?g))))
           = Response True ''OK'' (Some (JObj [(''choices'',
               JArr [JObj [(''message'', JObj [(''content'', JStr ''   '')])]])]))"
    by (simp add: scripted_network_def initial_world_def chat_reply_def)
  have c: "js_path (Some (JObj [(''choices'',
               JArr [JObj [(''message'', JObj [(''content'', JStr ''   '')])]])]))
             [''choices'', ''0'', ''message'', ''content''] = Inr (Some (JStr ''   ''))"
    by (simp add: js_get_def)
  have b: "js_trim ''   '' = []"
    by (simp add: js_trim_def js_whitespace_def)
  from blank_description_aborts [OF g d r c b] show ?thesis
    by simp
qed

text \<open>
  Claim C5. With a non-empty list of reference images, an error thrown by the describe
  call for the reference images does not abort the run: the error is logged with
  \<open>console.warn\<close>, the description of the reference images is the sentinel
  \<open>No reference images provided.\<close>, and the pipeline returns the image and the refined
  description whenever the refinement step and the image step that follow succeed.
\<close>

theorem reference_description_failure_isolated:
  assumes ne: "referenceImages \<noteq> []"
    and g: "createGenerator generation_type (OpenAIClient_new key) = Inr g"
    and f: "referenceImagesChat net (client g) referenceImages w = (Inl err, w1)"
    and r: "refineDescription net (client g) (getSystemPrompt (kind g)) text
              (JStr noReferenceImages)
              (if prompt \<noteq> [] then prompt else getDefaultContextPrompt (kind g))
              (w1\<lparr>console := console w1 @ [Warn ''Failed to describe reference images:'' err]\<rparr>)
            = (Inr refinedDescription, w2)"
    and i: "ImageGenerator_generateImage net g refinedDescription referenceImages
              (Some imageModel) None (Some quality) (Some aspect_ratio) w2
            = (Inr imageBlob, w3)"
  shows "localBYOK_pipeline net key generation_type text prompt referenceImages imageModel
           quality aspect_ratio w = (Inr (imageBlob, refinedDescription), w3)
     \<and> console w3 = console w @ [Warn ''Failed to describe reference images:'' err]
     \<and> describeReferenceImages net (client g) referenceImages w =
         (JStr noReferenceImages,
          w1\<lparr>console := console w1 @ [Warn ''Failed to describe reference images:'' err]\<rparr>)"
proof -
  let ?w1 = "w1\<lparr>console := console w1 @ [Warn ''Failed to describe reference images:'' err]\<rparr>"
  have d: "describeReferenceImages net (client g) referenceImages w =
             (JStr noReferenceImages, ?w1)"
    using ne f by (simp add: describeReferenceImages_def)
  have gd: "ImageGenerator_getDescription net g text (if prompt \<noteq> [] then Some prompt else None)
              referenceImages w = (Inr refinedDescription, w2)"
    using d r
    by (cases "prompt = []")
      (simp_all add: ImageGenerator_getDescription_def OpenAIClient_generateDescription_def)
  have pl: "localBYOK_pipeline net key generation_type text prompt referenceImages imageModel
           quality aspect_ratio w = (Inr (imageBlob, refinedDescription), w3)"
    unfolding localBYOK_pipeline_def using g gd i by simp
  have c1: "console w1 = console w"
    using referenceImagesChat_world [of net "client g" referenceImages w] f by simp
  have c2: "console w2 = console ?w1"
    using console_refineDescription [of net "client g" "getSystemPrompt (kind g)" "text"
        "JStr noReferenceImages"
        "if prompt \<noteq> [] then prompt else getDefaultContextPrompt (kind g)" "?w1"] r
    by simp
  have c3: "console w3 = console w2"
    using console_ImageGenerator_generateImage [of net g refinedDescription referenceImages
        "Some imageModel" None "Some quality" "Some aspect_ratio" w2] i
    by simp
  from pl d c1 c2 c3 show ?thesis by simp
qed

theorem reference_description_failure_isolated_witness:
  "fst (localBYOK_pipeline
          (scripted_network [FetchRejected, chat_reply '' a tall elf '', image_reply ''aGk=''])
          ''sk'' ''scene'' ''A harbour town'' [] [''data:image/png;base64,aGk='']
          ''gpt-image-1-mini'' ''high'' ''landscape'' initial_world)
     = Inr (Blob [104, 105] ''image/png'', ''a tall elf'')
   \<and> console (snd (localBYOK_pipeline
          (scripted_network [FetchRejected, chat_reply '' a tall elf '', image_reply ''aGk=''])
          ''sk'' ''scene'' ''A harbour town'' [] [''data:image/png;base64,aGk='']
          ''gpt-image-1-mini'' ''high'' ''landscape'' initial_world))
     = [Warn ''Failed to describe reference images:'' FetchFailed]"
proof -
  let ?net = "scripted_network [FetchRejected, chat_reply '' a tall elf '', image_reply ''aGk='']"
  let ?refs = "[''data:image/png;base64,aGk='']"
  let ?g = "\<lparr>kind = Scene, client = OpenAIClient_new ''sk'', defaultImageSize = ''1024x1024''\<rparr>"
  let ?w1 = "snd (referenceImagesChat ?net (client ?g) ?refs initial_world)"
  let ?w1' = "?w1\<lparr>console := console ?w1 @ [Warn ''Failed to describe reference images:'' FetchFailed]\<rparr>"
  let ?ctx = "if ([]::string) \<noteq> [] then [] else getDefaultContextPrompt (kind ?g)"
  let ?w2 = "snd (refineDescription ?net (client ?g) (getSystemPrompt (kind ?g))
                ''A harbour town'' (JStr noReferenceImages) ?ctx ?w1')"
  let ?w3 = "snd (ImageGenerator_generateImage ?net ?g ''a tall elf'' ?refs
                (Some ''gpt-image-1-mini'') None (Some ''high'') (Some ''landscape'') ?w2)"
  have ne: "?refs \<noteq> []" by simp
  have g: "createGenerator ''scene'' (OpenAIClient_new ''sk'') = Inr ?g"
    by (simp add: createGenerator_def)
  have f: "referenceImagesChat ?net (client ?g) ?refs initial_world = (Inl FetchFailed, ?w1)"
    by (simp add: referenceImagesChat_def chatCompletion_eq scripted_network_def
        initial_world_def openaiResponse_def)
  have p: "parseDescription (JObj [(''choices'',
              JArr [JObj [(''message'', JObj [(''content'', JStr '' a tall elf '')])]])])
           = Inr ''a tall elf''"
    by (subst parseDescription_string [where s = "'' a tall elf ''"])
      (simp_all add: js_get_def trim_elf)
  have r: "refineDescription ?net (client ?g) (getSystemPrompt (kind ?g)) ''A harbour town''
             (JStr noReferenceImages) ?ctx ?w1' = (Inr ''a tall elf'', ?w2)"
    unfolding prod_eq_iff
    by (simp add: refineDescription_eq scripted_network_def referenceImagesChat_world
        initial_world_def chat_reply_def openaiResponse_def p)
  have i: "ImageGenerator_generateImage ?net ?g ''a tall elf'' ?refs
             (Some ''gpt-image-1-mini'') None (Some ''high'') (Some ''landscape'') ?w2
           = (Inr (Blob [104, 105] ''image/png''), ?w3)"
    unfolding prod_eq_iff
    by (simp add: ImageGenerator_generateImage_def OpenAIClient_generateImage_def
        OpenAIClient_imageEdit_def Let_def referenceParts_one fetch_def scripted_network_def
        refineDescription_eq referenceImagesChat_world initial_world_def image_reply_def
        openaiResponse_def imageData_def js_get_def truthy_def
        atob_hi bytes_hi withDefault_Some withDefault_None mapAspectRatioToSize_def
        sizeMap_def del: referenceParts.simps)
  from reference_description_failure_isolated [OF ne g f r i] show ?thesis
    by (simp add: initial_world_def)
qed

text \<open>
  Claim C6. A call of \<open>OpenAIClient.generateImage\<close> without reference images issues one
  request whose body is a JSON object with exactly the fields model, prompt, size, quality,
  background and n = 1, hence without an image field and without binary parts. With
  reference images it issues one multipart request with the same six text fields (n is
  \<open>1\<close>) followed by one file part named \<open>image\<close> of type \<open>image/png\<close> per reference
  image; when a reference image does not decode, the call fails before any request.
\<close>

theorem synthesis_request_shape:
  "(referenceImages = [] \<longrightarrow>
      issued w (snd (OpenAIClient_generateImage net c prompt referenceImages model sz quality
         background w)) =
        [\<lparr>url = baseUrl c @ ''/images/generations'', httpMethod = ''POST'',
          headers = [(''Content-Type'', ''application/json''),
                     (''Authorization'', ''Bearer '' @ apiKey c)],
          body = JsonBody (JObj [
            (''model'', JStr (withDefault ''gpt-image-1-mini'' model)),
            (''prompt'', JStr prompt),
            (''size'', JStr (withDefault ''1024x1024'' sz)),
            (''quality'', JStr (withDefault ''medium'' quality)),
            (''background'', JStr (withDefault ''transparent'' background)),
            (''n'', JNum 1)])\<rparr>])
   \<and> (referenceImages \<noteq> [] \<longrightarrow>
      (case referenceParts 0 referenceImages of
         Inl e \<Rightarrow>
           issued w (snd (OpenAIClient_generateImage net c prompt referenceImages model sz
              quality background w)) = []
           \<and> fst (OpenAIClient_generateImage net c prompt referenceImages model sz quality
                background w) = Inl e
       | Inr parts \<Rightarrow>
           issued w (snd (OpenAIClient_generateImage net c prompt referenceImages model sz
              quality background w)) =
             [\<lparr>url = baseUrl c @ ''/images/edits'', httpMethod = ''POST'',
               headers = [(''Authorization'', ''Bearer '' @ apiKey c)],
               body = FormDataBody ([
                 TextField ''model'' (withDefault ''gpt-image-1-mini'' model),
                 TextField ''prompt'' prompt,
                 TextField ''size'' (withDefault ''1024x1024'' sz),
                 TextField ''quality'' (withDefault ''medium'' quality),
                 TextField ''background'' (withDefault ''transparent'' background),
                 TextField ''n'' ''1''] @ parts)\<rparr>]
           \<and> length parts = length referenceImages
           \<and> (\<forall>e \<in> set parts. \<exists>b f. e = FileField ''image'' b f
                  \<and> mimeType b = ''image/png'')))"
proof (intro conjI impI)
  assume "referenceImages = []"
  then show "issued w (snd (OpenAIClient_generateImage net c prompt referenceImages model sz
      quality background w)) =
        [\<lparr>url = baseUrl c @ ''/images/generations'', httpMethod = ''POST'',
          headers = [(''Content-Type'', ''application/json''),
                     (''Authorization'', ''Bearer '' @ apiKey c)],
          body = JsonBody (JObj [
            (''model'', JStr (withDefault ''gpt-image-1-mini'' model)),
            (''prompt'', JStr prompt),
            (''size'', JStr (withDefault ''1024x1024'' sz)),
            (''quality'', JStr (withDefault ''medium'' quality)),
            (''background'', JStr (withDefault ''transparent'' background)),
            (''n'', JNum 1)])\<rparr>]"
    unfolding issued_def generateImage_trace
    by (simp add: jsonRequest_def generationParams_def)
next
  assume ne: "referenceImages \<noteq> []"
  show "case referenceParts 0 referenceImages of
         Inl e \<Rightarrow>
           issued w (snd (OpenAIClient_generateImage net c prompt referenceImages model sz
              quality background w)) = []
           \<and> fst (OpenAIClient_generateImage net c prompt referenceImages model sz quality
                background w) = Inl e
       | Inr parts \<Rightarrow>
           issued w (snd (OpenAIClient_generateImage net c prompt referenceImages model sz
              quality background w)) =
             [\<lparr>url = baseUrl c @ ''/images/edits'', httpMethod = ''POST'',
               headers = [(''Authorization'', ''Bearer '' @ apiKey c)],
               body = FormDataBody ([
                 TextField ''model'' (withDefault ''gpt-image-1-mini'' model),
                 TextField ''prompt'' prompt,
                 TextField ''size'' (withDefault ''1024x1024'' sz),
                 TextField ''quality'' (withDefault ''medium'' quality),
                 TextField ''background'' (withDefault ''transparent'' background),
                 TextField ''n'' ''1''] @ parts)\<rparr>]
           \<and> length parts = length referenceImages
           \<and> (\<forall>e \<in> set parts. \<exists>b f. e = FileField ''image'' b f
                  \<and> mimeType b = ''image/png'')"
  proof (cases "referenceParts 0 referenceImages")
    case (Inl e)
    have "fst (OpenAIClient_generateImage net c prompt referenceImages model sz quality
                background w) = Inl e"
      using ne Inl by (simp add: OpenAIClient_generateImage_def OpenAIClient_imageEdit_def Let_def)
    moreover have "issued w (snd (OpenAIClient_generateImage net c prompt referenceImages
        model sz quality background w)) = []"
      unfolding issued_def generateImage_trace using ne Inl by simp
    ultimately show ?thesis using Inl by simp
  next
    case (Inr parts)
    have "issued w (snd (OpenAIClient_generateImage net c prompt referenceImages
        model sz quality background w)) =
          [editRequest c (editFields (withDefault ''gpt-image-1-mini'' model) prompt
             (withDefault ''1024x1024'' sz) (withDefault ''medium'' quality)
             (withDefault ''transparent'' background) @ parts)]"
      unfolding issued_def generateImage_trace using ne Inr by simp
    with referenceParts_shape [OF Inr] Inr show ?thesis
      by (simp add: editRequest_def editFields_def)
  qed
qed

theorem synthesis_request_shape_witness:
  "issued initial_world (snd (OpenAIClient_generateImage (scripted_network [])
      (OpenAIClient_new ''sk'') ''an elf'' [''data:image/png;base64,aGk='', ''aGVsbG8='']
      None None None None initial_world)) =
     [\<lparr>url = ''https://api.openai.com/v1/images/edits'', httpMethod = ''POST'',
       headers = [(''Authorization'', ''Bearer sk'')],
       body = FormDataBody [
         TextField ''model'' ''gpt-image-1-mini'', TextField ''prompt'' ''an elf'',
         TextField ''size'' ''1024x1024'', TextField ''quality'' ''medium'',
         TextField ''background'' ''transparent'', TextField ''n'' ''1'',
         FileField ''image'' (Blob [104, 105] ''image/png'') ''reference_0.png'',
         FileField ''image'' (Blob [104, 101, 108, 108, 111] ''image/png'')
           ''reference_1.png'']\<rparr>]
   \<and> issued initial_world (snd (OpenAIClient_generateImage (scripted_network [])
      (OpenAIClient_new ''sk'') ''an elf'' [] None None None None initial_world)) =
     [\<lparr>url = ''https://api.openai.com/v1/images/generations'', httpMethod = ''POST'',
       headers = [(''Content-Type'', ''application/json''), (''Authorization'', ''Bearer sk'')],
       body = JsonBody (JObj [
         (''model'', JStr ''gpt-image-1-mini''), (''prompt'', JStr ''an elf''),
         (''size'', JStr ''1024x1024''), (''quality'', JStr ''medium''),
         (''background'', JStr ''transparent''), (''n'', JNum 1)])\<rparr>]"
  using
    synthesis_request_shape [of "[''data:image/png;base64,aGk='', ''aGVsbG8='']" initial_world
      "scripted_network []" "OpenAIClient_new ''sk''" "''an elf''" None None None None]
    synthesis_request_shape [of "[]" initial_world
      "scripted_network []" "OpenAIClient_new ''sk''" "''an elf''" None None None None]
  unfolding referenceParts_two withDefault_None
  by (simp add: OpenAIClient_new_def)

text \<open>
  Claim C7. The size table maps square to 1024x1024, landscape to 1536x1024 and portrait
  to 1024x1536. For each of the three aspect ratios, for every generator kind and with or
  without reference images, \<open>ImageGenerator.generateImage\<close> issues exactly one request, and
  that request carries the size of the table; the one exception is a reference image that
  does not decode, where the call fails before any request.
\<close>

theorem aspect_ratio_size:
  "mapAspectRatioToSize ''square'' = SizeString ''1024x1024''
   \<and> mapAspectRatioToSize ''landscape'' = SizeString ''1536x1024''
   \<and> mapAspectRatioToSize ''portrait'' = SizeString ''1024x1536''
   \<and> map request_size (issued w (snd (ImageGenerator_generateImage net g description
          referenceImages model imageSize quality (Some ''square'') w))) =
       (case referenceParts 0 referenceImages of
          Inl e \<Rightarrow> []
        | Inr parts \<Rightarrow> [Some ''1024x1024''])
   \<and> map request_size (issued w (snd (ImageGenerator_generateImage net g description
          referenceImages model imageSize quality (Some ''landscape'') w))) =
       (case referenceParts 0 referenceImages of
          Inl e \<Rightarrow> []
        | Inr parts \<Rightarrow> [Some ''1536x1024''])
   \<and> map request_size (issued w (snd (ImageGenerator_generateImage net g description
          referenceImages model imageSize quality (Some ''portrait'') w))) =
       (case referenceParts 0 referenceImages of
          Inl e \<Rightarrow> []
        | Inr parts \<Rightarrow> [Some ''1024x1536''])"
proof -
  have sq: "mapAspectRatioToSize ''square'' = SizeString ''1024x1024''"
    by (simp add: mapAspectRatioToSize_def sizeMap_def)
  have la: "mapAspectRatioToSize ''landscape'' = SizeString ''1536x1024''"
    by (simp add: mapAspectRatioToSize_def sizeMap_def)
  have po: "mapAspectRatioToSize ''portrait'' = SizeString ''1024x1536''"
    by (simp add: mapAspectRatioToSize_def sizeMap_def)
  have run: "map request_size (issued w (snd (ImageGenerator_generateImage net g description
          referenceImages model imageSize quality (Some a) w))) =
       (case referenceParts 0 referenceImages of
          Inl e \<Rightarrow> []
        | Inr parts \<Rightarrow> [Some s])"
    if a: "mapAspectRatioToSize a = SizeString s" for a s
  proof -
    let ?w' = "snd (ImageGenerator_generateImage net g description
          referenceImages model imageSize quality (Some a) w)"
    from a have a': "mapAspectRatioToSize (withDefault ''square'' (Some a)) = SizeString s"
      by (simp add: withDefault_Some)
    have t: "issued w ?w' =
       (if referenceImages \<noteq> [] then
          (case referenceParts 0 referenceImages of
             Inl e \<Rightarrow> []
           | Inr parts \<Rightarrow>
               [editRequest (client g)
                  (editFields (withDefault ''gpt-image-1-mini'' model)
                     (getPrompt (kind g) description) s (withDefault ''medium'' quality)
                     ''transparent'' @ parts)])
        else [jsonRequest (client g) ''/images/generations''
                (generationParams (withDefault ''gpt-image-1-mini'' model)
                   (getPrompt (kind g) description) s (withDefault ''medium'' quality)
                   ''transparent'')])"
      unfolding issued_def ImageGenerator_generateImage_trace [OF a'] generateImage_trace
        withDefault_Some withDefault_None
      by simp
    show ?thesis
    proof (cases "referenceImages = []")
      case True
      then show ?thesis
        unfolding t by (simp add: request_size_generation)
    next
      case False
      then show ?thesis
        unfolding t by (simp add: request_size_edit split: sum.splits)
    qed
  qed
  from sq la po run [OF sq] run [OF la] run [OF po] show ?thesis
    by blast
qed

theorem aspect_ratio_size_witness:
  "map request_size (issued initial_world (snd (ImageGenerator_generateImage
      (scripted_network [])
      \<lparr>kind = Scene, client = OpenAIClient_new ''sk'', defaultImageSize = ''1024x1024''\<rparr>
      ''a harbour at dusk'' [] None None None (Some ''landscape'') initial_world)))
   = [Some ''1536x1024'']
   \<and> map request_size (issued initial_world (snd (ImageGenerator_generateImage
      (scripted_network [])
      \<lparr>kind = Character, client = OpenAIClient_new ''sk'', defaultImageSize = ''1024x1024''\<rparr>
      ''a tall elf'' [''data:image/png;base64,aGk=''] None None None (Some ''portrait'')
      initial_world)))
   = [Some ''1024x1536'']
   \<and> map request_size (issued initial_world (snd (ImageGenerator_generateImage
      (scripted_network [])
      \<lparr>kind = Item, client = OpenAIClient_new ''sk'', defaultImageSize = ''1024x1024''\<rparr>
      ''a brass lantern'' [''data:image/png;base64,aGk='', ''aGVsbG8=''] None None None
      (Some ''square'') initial_world)))
   = [Some ''1024x1024'']"
  using
    aspect_ratio_size [of initial_world "scripted_network []"
      "\<lparr>kind = Scene, client = OpenAIClient_new ''sk'', defaultImageSize = ''1024x1024''\<rparr>"
      "''a harbour at dusk''" "[]" None None None]
    aspect_ratio_size [of initial_world "scripted_network []"
      "\<lparr>kind = Character, client = OpenAIClient_new ''sk'',
         defaultImageSize = ''1024x1024''\<rparr>"
      "''a tall elf''" "[''data:image/png;base64,aGk='']" None None None]
    aspect_ratio_size [of initial_world "scripted_network []"
      "\<lparr>kind = Item, client = OpenAIClient_new ''sk'', defaultImageSize = ''1024x1024''\<rparr>"
      "''a brass lantern''" "[''data:image/png;base64,aGk='', ''aGVsbG8='']" None None None]
  unfolding referenceParts_one referenceParts_two
  by simp

text \<open>
  Claim C8 says that a \<open>quota_exceeded\<close> response surfaces as a typed error told apart
  from generic failures. The source throws a plain \<open>Error\<close> in every case: a
  \<open>quota_exceeded\<close> response and a response with an unrelated discriminant that carry the
  same message give the same error.
\<close>

theorem quota_error_not_distinguished:
  "fst (WizzlethorpeAPI_generate
          (scripted_network [broker_error ''quota_exceeded'' ''Limit reached''])
          \<lparr>wizzlethorpeToken = ''tok'', wizzlethorpeAccount = None, openaiApiKey = ''sk'',
            useServerMode = True\<rparr>
          (generateParams ''character'' ''An elven ranger'' [] [] ''gpt-image-1-mini''
             ''high'' ''square'' (Some ''sk''))
          initial_world) = Inl (Error ''Limit reached'')
   \<and> fst (WizzlethorpeAPI_generate
          (scripted_network [broker_error ''internal_error'' ''Limit reached''])
          \<lparr>wizzlethorpeToken = ''tok'', wizzlethorpeAccount = None, openaiApiKey = ''sk'',
            useServerMode = True\<rparr>
          (generateParams ''character'' ''An elven ranger'' [] [] ''gpt-image-1-mini''
             ''high'' ''square'' (Some ''sk''))
          initial_world) = Inl (Error ''Limit reached'')"
  by (simp add: WizzlethorpeAPI_generate_def WizzlethorpeAPI_getToken_def fetch_def
      scripted_network_def initial_world_def broker_error_def js_get_def js_or_def truthy_def)

text \<open>
  Claim C8, as the source has it: on a response that is not ok, a discriminant
  \<open>quota_exceeded\<close> or \<open>subscription_required\<close> gives an \<open>Error\<close> whose message is the
  server's message when there is one, and the fixed text of that discriminant when the
  body has no message; with a server message the error is the same for every
  discriminant.
\<close>

theorem broker_error_messages:
  assumes t: "wizzlethorpeToken s \<noteq> []"
    and r: "net (trace w) (generateRequest (wizzlethorpeToken s) params)
            = Response False statusText (Some (JObj members))"
  shows "(map_of members ''error'' = Some (JStr ''quota_exceeded'')
            \<and> map_of members ''message'' = Some (JStr m) \<and> m \<noteq> [] \<longrightarrow>
          fst (WizzlethorpeAPI_generate net s params w) = Inl (Error m))
     \<and> (map_of members ''error'' = Some (JStr ''quota_exceeded'')
            \<and> map_of members ''message'' = None \<longrightarrow>
          fst (WizzlethorpeAPI_generate net s params w) = Inl (Error ''Weekly quota exceeded''))
     \<and> (map_of members ''error'' = Some (JStr ''subscription_required'')
            \<and> map_of members ''message'' = Some (JStr m) \<and> m \<noteq> [] \<longrightarrow>
          fst (WizzlethorpeAPI_generate net s params w) = Inl (Error m))
     \<and> (map_of members ''error'' = Some (JStr ''subscription_required'')
            \<and> map_of members ''message'' = None \<longrightarrow>
          fst (WizzlethorpeAPI_generate net s params w)
            = Inl (Error ''Subscription required for this feature''))
     \<and> (map_of members ''message'' = Some (JStr m) \<and> m \<noteq> [] \<longrightarrow>
          fst (WizzlethorpeAPI_generate net s params w) = Inl (Error m))"
  using t r
  by (simp add: WizzlethorpeAPI_generate_def WizzlethorpeAPI_getToken_def fetch_def
      js_get_def js_or_def truthy_def)

theorem broker_error_messages_witness:
  "fst (WizzlethorpeAPI_generate
          (scripted_network [broker_error ''quota_exceeded'' ''You have used 10 of 10 images''])
          \<lparr>wizzlethorpeToken = ''tok'', wizzlethorpeAccount = None, openaiApiKey = [],
            useServerMode = True\<rparr>
          (generateParams ''character'' ''An elven ranger'' [] [] ''gpt-image-1-mini''
             ''high'' ''square'' None)
          initial_world) = Inl (Error ''You have used 10 of 10 images'')"
proof -
  let ?s = "\<lparr>wizzlethorpeToken = ''tok'', wizzlethorpeAccount = None, openaiApiKey = [],
            useServerMode = True\<rparr>"
  let ?net = "scripted_network [broker_error ''quota_exceeded'' ''You have used 10 of 10 images'']"
  let ?params = "generateParams ''character'' ''An elven ranger'' [] [] ''gpt-image-1-mini''
             ''high'' ''square'' None"
  have t: "wizzlethorpeToken ?s \<noteq> []" by simp
  have r: "?net (trace initial_world) (generateRequest (wizzlethorpeToken ?s) ?params)
           = Response False ''Forbidden''
               (Some (JObj [(''error'', JStr ''quota_exceeded''),
                            (''message'', JStr ''You have used 10 of 10 images'')]))"
    by (simp add: scripted_network_def initial_world_def broker_error_def)
  from broker_error_messages [where net = "?net" and s = "?s" and w = initial_world
      and params = "?params" and m = "''You have used 10 of 10 images''", OF t r]
  show ?thesis
    by simp
qed

text \<open>
  Claim C9. At most one of the three strategy conditions holds: the brokered condition
  excludes the server-pooled one, the local condition needs the account unlinked, and the
  other two need it linked.
\<close>

theorem strategy_conditions_exclusive:
  "\<not> (shouldUseAPI s \<and> shouldUseBYOKAPI s)
   \<and> \<not> (shouldUseAPI s \<and> shouldUseLocalBYOK s)
   \<and> \<not> (shouldUseBYOKAPI s \<and> shouldUseLocalBYOK s)
   \<and> (shouldUseBYOKAPI s \<longrightarrow> \<not> shouldUseAPI s)
   \<and> (shouldUseLocalBYOK s \<longrightarrow> \<not> WizzlethorpeAPI_isLinked s)
   \<and> (shouldUseAPI s \<longrightarrow> WizzlethorpeAPI_isLinked s)
   \<and> (shouldUseBYOKAPI s \<longrightarrow> WizzlethorpeAPI_isLinked s)"
  by (auto simp: shouldUseAPI_def shouldUseBYOKAPI_def shouldUseLocalBYOK_def)

theorem strategy_conditions_exclusive_witness:
  "shouldUseBYOKAPI \<lparr>wizzlethorpeToken = ''tok'', wizzlethorpeAccount = None,
      openaiApiKey = ''x'', useServerMode = True\<rparr>
   \<and> \<not> shouldUseAPI \<lparr>wizzlethorpeToken = ''tok'', wizzlethorpeAccount = None,
      openaiApiKey = ''x'', useServerMode = True\<rparr>
   \<and> \<not> shouldUseLocalBYOK \<lparr>wizzlethorpeToken = ''tok'', wizzlethorpeAccount = None,
      openaiApiKey = ''x'', useServerMode = True\<rparr>
   \<and> WizzlethorpeAPI_isLinked \<lparr>wizzlethorpeToken = ''tok'', wizzlethorpeAccount = None,
      openaiApiKey = ''x'', useServerMode = True\<rparr>"
proof -
  let ?s = "\<lparr>wizzlethorpeToken = ''tok'', wizzlethorpeAccount = None,
      openaiApiKey = ''x'', useServerMode = True\<rparr>"
  have b: "shouldUseBYOKAPI ?s"
    by (simp add: resolver_defs)
  from b strategy_conditions_exclusive [of ?s] show ?thesis
    by blast
qed

text \<open>
  Claim C10. For every generator kind the description step with an empty context prompt
  is the description step with no context prompt: in both cases the describe call gets the
  default context prompt of the kind; the pipeline passes an empty form prompt as null.
\<close>

theorem getDescription_falsy_prompt:
  "ImageGenerator_getDescription net g text (Some []) referenceImages w =
     ImageGenerator_getDescription net g text None referenceImages w
   \<and> ImageGenerator_getDescription net g text None referenceImages w =
     OpenAIClient_generateDescription net (client g) (getSystemPrompt (kind g)) text
       (getDefaultContextPrompt (kind g)) referenceImages w
   \<and> localBYOK_pipeline net key generation_type text [] referenceImages imageModel quality
       aspect_ratio w =
     (case createGenerator generation_type (OpenAIClient_new key) of
        Inl e \<Rightarrow> (Inl e, w)
      | Inr generator \<Rightarrow>
          (case ImageGenerator_getDescription net generator text None referenceImages w of
             (Inl e, w1) \<Rightarrow> (Inl e, w1)
           | (Inr refinedDescription, w1) \<Rightarrow>
               (case ImageGenerator_generateImage net generator refinedDescription
                       referenceImages (Some imageModel) None (Some quality)
                       (Some aspect_ratio) w1 of
                  (Inl e, w2) \<Rightarrow> (Inl e, w2)
                | (Inr imageBlob, w2) \<Rightarrow> (Inr (imageBlob, refinedDescription), w2))))"
  by (simp add: ImageGenerator_getDescription_def localBYOK_pipeline_def)

end
